theory Spec2Isabelle
  imports Complex_Main "HOL-Library.Log_Nat"
begin

section \<open>JavaScript values as the dashboard sees them\<close>

text \<open>
  The dashboard (\<^verbatim>\<open>zephyr_react_dashboard.js\<close>) works on values decoded from JSON and on
  the numbers it computes from them. A number is an IEEE 754 double: a finite value,
  one of the two infinities, or NaN. A finite double is given by the rational it
  equals. The sign of zero is left out (the program divides only after testing
  \<^verbatim>\<open>total > 0\<close>, and \<^verbatim>\<open>-0\<close> is falsy and prints like \<^verbatim>\<open>0\<close>).
\<close>

datatype jsnum = Fin rat | PosInf | NegInf | NaN

text \<open>
  Rounding a rational to the nearest double, ties to the even significand. For
  \<open>a > 0\<close>, \<open>ilog2 a\<close> is the binary exponent of \<open>a\<close>: \<open>2 powi ilog2 a \<le> a < 2 powi (ilog2 a + 1)\<close>.
  A double has a significand of 53 bits and an exponent from \<open>-1022\<close> to \<open>1023\<close>, so
  the doubles around \<open>a\<close> are the multiples of \<open>2 powi q\<close> with
  \<open>q = max (ilog2 a) (-1022) - 52\<close>; below the exponent \<open>-1022\<close> they are the subnormal
  multiples of \<open>2 powi (-1074)\<close>. A rounded value whose exponent has reached \<open>1024\<close> is
  an infinity; a value rounded to \<open>0\<close> stays finite (\<open>ilog2 0\<close> is below \<open>1024\<close>).
\<close>

definition ilog2 :: "rat \<Rightarrow> int" where
  "ilog2 a =
     (let d = bitlen (fst (quotient_of a)) - bitlen (snd (quotient_of a))
      in if 2 powi d \<le> a then d else d - 1)"

definition round_half_even :: "rat \<Rightarrow> int" where
  "round_half_even m =
     (let f = \<lfloor>m\<rfloor>; d = m - of_int f
      in if d < 1 / 2 then f else if 1 / 2 < d then f + 1 else if even f then f else f + 1)"

definition round64 :: "rat \<Rightarrow> jsnum" where
  "round64 x =
     (if x = 0 then Fin 0
      else let q = max (ilog2 \<bar>x\<bar>) (- 1022) - 52;
               r = of_int (round_half_even (\<bar>x\<bar> / 2 powi q)) * 2 powi q
           in if 1024 \<le> ilog2 r then (if x < 0 then NegInf else PosInf)
              else Fin (if x < 0 then - r else r))"

text \<open>
  A number inside a JSON value is held as it is written in the text: \<open>JNum (Fin x)\<close>
  is the literal \<open>x\<close>, and the number the program works with is the double nearest to
  it, \<open>canon (Fin x)\<close>, as \<^verbatim>\<open>JSON.parse\<close> delivers it.
\<close>

fun canon :: "jsnum \<Rightarrow> jsnum" where
  "canon (Fin x) = round64 x"
| "canon n = n"

datatype jsval =
    JUndefined
  | JNull
  | JBool bool
  | JNum jsnum
  | JStr string
  | JArr "jsval list"
  | JObj "(string \<times> jsval) list"

text \<open>What the program can throw: \<^verbatim>\<open>Error\<close>, \<^verbatim>\<open>TypeError\<close> and \<^verbatim>\<open>SyntaxError\<close> objects,
  each with its \<^verbatim>\<open>message\<close>.\<close>

datatype js_error = Error string | TypeError string | SyntaxError string

fun message :: "js_error \<Rightarrow> string" where
  "message (Error m) = m"
| "message (TypeError m) = m"
| "message (SyntaxError m) = m"

fun nullish :: "jsval \<Rightarrow> bool" where
  "nullish JUndefined = True"
| "nullish JNull = True"
| "nullish _ = False"

text \<open>ToBoolean: \<^verbatim>\<open>undefined\<close>, \<^verbatim>\<open>null\<close>, \<^verbatim>\<open>false\<close>, \<^verbatim>\<open>0\<close>, \<^verbatim>\<open>NaN\<close> and \<^verbatim>\<open>''\<close> are falsy.\<close>

fun nonzero :: "jsnum \<Rightarrow> bool" where
  "nonzero (Fin x) = (x \<noteq> 0)"
| "nonzero NaN = False"
| "nonzero PosInf = True"
| "nonzero NegInf = True"

fun truthy :: "jsval \<Rightarrow> bool" where
  "truthy JUndefined = False"
| "truthy JNull = False"
| "truthy (JBool b) = b"
| "truthy (JNum n) = nonzero (canon n)"
| "truthy (JStr s) = (s \<noteq> [])"
| "truthy (JArr xs) = True"
| "truthy (JObj kvs) = True"

text \<open>\<^verbatim>\<open>a || b\<close>\<close>

definition js_or :: "jsval \<Rightarrow> jsval \<Rightarrow> jsval" where
  "js_or a b = (if truthy a then a else b)"

text \<open>
  Reading a property of a value that is neither \<^verbatim>\<open>undefined\<close> nor \<^verbatim>\<open>null\<close>. An object
  gives its own property or \<^verbatim>\<open>undefined\<close>; arrays and strings have \<^verbatim>\<open>length\<close>; every
  other read gives \<^verbatim>\<open>undefined\<close>. (None of the names the dashboard reads as data is
  an inherited property, and it reads an index only as \<^verbatim>\<open>content[0]\<close>, which is \<open>index0\<close>
  below.)
\<close>

fun js_get :: "jsval \<Rightarrow> string \<Rightarrow> jsval" where
  "js_get (JObj kvs) k = (case map_of kvs k of Some v \<Rightarrow> v | None \<Rightarrow> JUndefined)"
| "js_get (JArr xs) k =
     (if k = ''length'' then JNum (Fin (of_nat (length xs))) else JUndefined)"
| "js_get (JStr s) k =
     (if k = ''length'' then JNum (Fin (of_nat (length s))) else JUndefined)"
| "js_get _ k = JUndefined"

text \<open>\<^verbatim>\<open>v.k\<close>: a TypeError on \<^verbatim>\<open>undefined\<close> and \<^verbatim>\<open>null\<close>.\<close>

definition get_prop :: "jsval \<Rightarrow> string \<Rightarrow> js_error + jsval" where
  "get_prop v k =
     (if nullish v
      then Inl (TypeError (''Cannot read properties of undefined or null (reading '' @ k @ '')''))
      else Inr (js_get v k))"

text \<open>\<^verbatim>\<open>v?.k\<close>: \<^verbatim>\<open>undefined\<close> on \<^verbatim>\<open>undefined\<close> and \<^verbatim>\<open>null\<close>, never an error.\<close>

definition opt_prop :: "jsval \<Rightarrow> string \<Rightarrow> jsval" where
  "opt_prop v k = (if nullish v then JUndefined else js_get v k)"

text \<open>\<^verbatim>\<open>v[0]\<close> on a value that is neither \<^verbatim>\<open>undefined\<close> nor \<^verbatim>\<open>null\<close>.\<close>

fun index0 :: "jsval \<Rightarrow> jsval" where
  "index0 (JArr []) = JUndefined"
| "index0 (JArr (x # xs)) = x"
| "index0 (JStr []) = JUndefined"
| "index0 (JStr (c # cs)) = JStr [c]"
| "index0 (JObj kvs) = (case map_of kvs ''0'' of Some v \<Rightarrow> v | None \<Rightarrow> JUndefined)"
| "index0 _ = JUndefined"

section \<open>Numbers\<close>

text \<open>\<^verbatim>\<open>a > b\<close> on numbers: false as soon as one side is NaN.\<close>

fun num_gt :: "jsnum \<Rightarrow> jsnum \<Rightarrow> bool" where
  "num_gt (Fin x) (Fin y) = (y < x)"
| "num_gt (Fin x) NegInf = True"
| "num_gt PosInf (Fin y) = True"
| "num_gt PosInf NegInf = True"
| "num_gt _ _ = False"

text \<open>
  Subtraction, division and multiplication of doubles: the exact result, rounded to
  the nearest double.
\<close>

fun num_sub :: "jsnum \<Rightarrow> jsnum \<Rightarrow> jsnum" where
  "num_sub (Fin x) (Fin y) = round64 (x - y)"
| "num_sub (Fin x) PosInf = NegInf"
| "num_sub (Fin x) NegInf = PosInf"
| "num_sub PosInf (Fin y) = PosInf"
| "num_sub PosInf NegInf = PosInf"
| "num_sub NegInf (Fin y) = NegInf"
| "num_sub NegInf PosInf = NegInf"
| "num_sub _ _ = NaN"

fun num_div :: "jsnum \<Rightarrow> jsnum \<Rightarrow> jsnum" where
  "num_div (Fin x) (Fin y) =
     (if y = 0 then (if x = 0 then NaN else if 0 < x then PosInf else NegInf)
      else round64 (x / y))"
| "num_div (Fin x) PosInf = Fin 0"
| "num_div (Fin x) NegInf = Fin 0"
| "num_div PosInf (Fin y) = (if y < 0 then NegInf else PosInf)"
| "num_div NegInf (Fin y) = (if y < 0 then PosInf else NegInf)"
| "num_div _ _ = NaN"

fun num_mul :: "jsnum \<Rightarrow> jsnum \<Rightarrow> jsnum" where
  "num_mul (Fin x) (Fin y) = round64 (x * y)"
| "num_mul (Fin x) PosInf = (if x = 0 then NaN else if 0 < x then PosInf else NegInf)"
| "num_mul (Fin x) NegInf = (if x = 0 then NaN else if 0 < x then NegInf else PosInf)"
| "num_mul PosInf (Fin y) = (if y = 0 then NaN else if 0 < y then PosInf else NegInf)"
| "num_mul NegInf (Fin y) = (if y = 0 then NaN else if 0 < y then NegInf else PosInf)"
| "num_mul PosInf PosInf = PosInf"
| "num_mul PosInf NegInf = NegInf"
| "num_mul NegInf PosInf = NegInf"
| "num_mul NegInf NegInf = PosInf"
| "num_mul _ _ = NaN"

text \<open>
  ToNumber. A number is the double its literal denotes. How the engine reads a
  string, an array or an object as a number (by parsing its text) is the parameter
  \<open>c\<close>; the other cases are fixed.
\<close>

fun ToNumber :: "(jsval \<Rightarrow> jsnum) \<Rightarrow> jsval \<Rightarrow> jsnum" where
  "ToNumber c JUndefined = NaN"
| "ToNumber c JNull = Fin 0"
| "ToNumber c (JBool b) = Fin (if b then 1 else 0)"
| "ToNumber c (JNum n) = canon n"
| "ToNumber c v = c v"

text \<open>
  The text \<^verbatim>\<open>x.toFixed(1)\<close> returns: \<open>Fixed1 neg n\<close> stands for the decimal digits of \<open>n\<close>
  with a point before the last one (a leading \<^verbatim>\<open>0\<close> when \<open>n < 10\<close>), after a minus
  sign when \<open>neg\<close>; \<open>Plain x\<close> stands for the ordinary text of the number \<open>x\<close>, which
  \<^verbatim>\<open>toFixed\<close> returns for NaN, the infinities and magnitudes from \<open>10^21\<close> on.
\<close>

datatype display = Fixed1 bool nat | Plain jsnum

text \<open>
  The tenths \<open>n\<close> for which \<open>n / 10\<close> is nearest to \<open>a\<close>, the larger one of two.
  \<^verbatim>\<open>toFixed\<close> rounds the exact value of the double it is applied to.
\<close>

definition nearest_tenths :: "rat \<Rightarrow> nat" where
  "nearest_tenths a = nat \<lfloor>a * 10 + 1 / 2\<rfloor>"

fun toFixed1 :: "jsnum \<Rightarrow> display" where
  "toFixed1 (Fin x) =
     (if 10 ^ 21 \<le> \<bar>x\<bar> then Plain (Fin x) else Fixed1 (x < 0) (nearest_tenths \<bar>x\<bar>))"
| "toFixed1 n = Plain n"

text \<open>The number a displayed text denotes, when it denotes one.\<close>

fun display_value :: "display \<Rightarrow> rat option" where
  "display_value (Fixed1 neg n) = Some ((if neg then - 1 else 1) * of_nat n / 10)"
| "display_value (Plain (Fin x)) = Some x"
| "display_value (Plain _) = None"

text \<open>\<^verbatim>\<open>v.toFixed(1)\<close> on any value: only numbers have the method.\<close>

fun toFixed_call :: "jsval \<Rightarrow> js_error + display" where
  "toFixed_call (JNum n) = Inr (toFixed1 (canon n))"
| "toFixed_call v = Inl (TypeError ''toFixed is not a function'')"

section \<open>The progress bar and the cycle card\<close>

text \<open>
  \<^verbatim>\<open>const percentage = total > 0 ? (value / total) * 100 : 0;\<close>
\<close>

definition percentage :: "(jsval \<Rightarrow> jsnum) \<Rightarrow> jsval \<Rightarrow> jsval \<Rightarrow> jsnum" where
  "percentage c v tot =
     (if num_gt (ToNumber c tot) (Fin 0)
      then num_mul (num_div (ToNumber c v) (ToNumber c tot)) (Fin 100)
      else Fin 0)"

text \<open>What a \<^verbatim>\<open>ProgressBar\<close> shows: its label, \<^verbatim>\<open>{value}/{total}\<close>, the percentage with one
  decimal, and the width of the bar in percent.\<close>

record progress_bar =
  bar_label :: string
  bar_value :: jsval
  bar_total :: jsval
  bar_percent :: display
  bar_width :: jsnum
  bar_color :: string

definition ProgressBar ::
  "(jsval \<Rightarrow> jsnum) \<Rightarrow> string \<Rightarrow> jsval \<Rightarrow> jsval \<Rightarrow> string \<Rightarrow> progress_bar" where
  "ProgressBar c label v tot color =
     \<lparr>bar_label = label, bar_value = v, bar_total = tot,
      bar_percent = toFixed1 (percentage c v tot),
      bar_width = percentage c v tot, bar_color = color\<rparr>"

text \<open>The two constants \<^verbatim>\<open>CycleCard\<close> computes first and never renders.\<close>

definition executionRate :: "jsval \<Rightarrow> js_error + jsval" where
  "executionRate cycle =
     (case get_prop cycle ''execution_rate'' of
        Inl e \<Rightarrow> Inl e
      | Inr r \<Rightarrow> Inr (js_or r (JNum (Fin 0))))"

definition passRate :: "jsval \<Rightarrow> js_error + jsval" where
  "passRate cycle =
     (case get_prop cycle ''pass_rate'' of
        Inl e \<Rightarrow> Inl e
      | Inr r \<Rightarrow> Inr (js_or r (JNum (Fin 0))))"

record cycle_card =
  card_name :: jsval
  card_description :: jsval
  card_total :: jsval
  card_passed :: jsval
  card_failed :: jsval
  card_blocked :: jsval
  card_unexecuted :: jsval
  execution_bar :: progress_bar
  pass_bar :: progress_bar

text \<open>
  \<^verbatim>\<open>CycleCard({ cycle })\<close>: reading \<^verbatim>\<open>cycle.total_tests\<close> throws when the cycle is
  \<^verbatim>\<open>null\<close>, reading \<^verbatim>\<open>cycle.cycle.name\<close> throws when the cycle has no \<^verbatim>\<open>cycle\<close> object.
  The execution bar gets \<^verbatim>\<open>total - cycle.unexecuted\<close>, the pass bar \<^verbatim>\<open>cycle.passed\<close>.
\<close>

definition CycleCard :: "(jsval \<Rightarrow> jsnum) \<Rightarrow> jsval \<Rightarrow> js_error + cycle_card" where
  "CycleCard c cycle =
     (case get_prop cycle ''total_tests'' of
        Inl e \<Rightarrow> Inl e
      | Inr tot \<Rightarrow>
         (case get_prop (js_get cycle ''cycle'') ''name'' of
            Inl e \<Rightarrow> Inl e
          | Inr nm \<Rightarrow>
             Inr \<lparr>card_name = nm,
                  card_description = js_get (js_get cycle ''cycle'') ''description'',
                  card_total = tot,
                  card_passed = js_get cycle ''passed'',
                  card_failed = js_get cycle ''failed'',
                  card_blocked = js_get cycle ''blocked'',
                  card_unexecuted = js_get cycle ''unexecuted'',
                  execution_bar =
                    ProgressBar c ''Execution Progress''
                      (JNum (num_sub (ToNumber c tot) (ToNumber c (js_get cycle ''unexecuted''))))
                      tot ''blue'',
                  pass_bar = ProgressBar c ''Pass Rate'' (js_get cycle ''passed'') tot ''green''\<rparr>))"

section \<open>The tool client\<close>

text \<open>
  A promise that has settled: the moment it settled and its outcome, \<open>Inl\<close> a
  rejection and \<open>Inr\<close> a value. \<^verbatim>\<open>await p\<close> is \<open>snd p\<close>.
\<close>

type_synonym 'a promise = "nat \<times> (js_error + 'a)"

text \<open>The body \<^verbatim>\<open>callTool\<close> posts to \<^verbatim>\<open>/api/mcp\<close>: \<^verbatim>\<open>{method, params: {name, arguments}}\<close>.\<close>

record request =
  rpc_method :: string
  name :: string
  arguments :: "(string \<times> jsval) list"

text \<open>
  \<^verbatim>\<open>callTool(toolName, arguments)\<close>. The network and the JSON parser are parameters:
  \<open>fetch_json\<close> is \<^verbatim>\<open>fetch\<close> followed by \<^verbatim>\<open>response.json()\<close> (a rejection of either is
  \<open>Inl\<close>), \<open>JSON_parse\<close> is \<^verbatim>\<open>JSON.parse\<close> on the value it is handed. The \<^verbatim>\<open>catch\<close> block
  logs the error and throws it again, so every error passes through unchanged.
\<close>

definition callTool ::
  "(request \<Rightarrow> jsval promise) \<Rightarrow> (jsval \<Rightarrow> js_error + jsval) \<Rightarrow>
   string \<Rightarrow> (string \<times> jsval) list \<Rightarrow> jsval promise" where
  "callTool fetch_json JSON_parse toolName args =
     (let response = fetch_json \<lparr>rpc_method = ''tools/call'', name = toolName, arguments = args\<rparr>
      in (fst response,
          case snd response of
            Inl e \<Rightarrow> Inl e
          | Inr result \<Rightarrow>
             (case get_prop result ''result'' of
                Inl e \<Rightarrow> Inl e
              | Inr r \<Rightarrow>
                 if truthy r \<and> truthy (js_get r ''content'')
                 then (case get_prop (index0 (js_get r ''content'')) ''text'' of
                         Inl e \<Rightarrow> Inl e
                       | Inr txt \<Rightarrow> JSON_parse txt)
                 else Inl (Error ''Invalid response from MCP server''))))"

section \<open>Promise.all\<close>

text \<open>
  The rejection that settled first, the earlier promise of the list when two carry
  the same moment.
\<close>

fun first_rejected :: "'a promise list \<Rightarrow> (nat \<times> js_error) option" where
  "first_rejected [] = None"
| "first_rejected ((t, Inr v) # ps) = first_rejected ps"
| "first_rejected ((t, Inl e) # ps) =
     (case first_rejected ps of
        None \<Rightarrow> Some (t, e)
      | Some (t', e') \<Rightarrow> if t' < t then Some (t', e') else Some (t, e))"

fun fulfilled_values :: "'a promise list \<Rightarrow> 'a list" where
  "fulfilled_values [] = []"
| "fulfilled_values ((t, Inr v) # ps) = v # fulfilled_values ps"
| "fulfilled_values ((t, Inl e) # ps) = fulfilled_values ps"

text \<open>
  \<^verbatim>\<open>Promise.all(ps)\<close> rejects with the first rejection, as soon as it happens; when
  no promise rejects it fulfils, once the last one has, with the values in the order
  of the list.
\<close>

definition Promise_all :: "'a promise list \<Rightarrow> 'a list promise" where
  "Promise_all ps =
     (case first_rejected ps of
        Some (t, e) \<Rightarrow> (t, Inl e)
      | None \<Rightarrow> (foldr max (map fst ps) 0, Inr (fulfilled_values ps)))"

text \<open>Array destructuring: a missing element is \<^verbatim>\<open>undefined\<close>.\<close>

definition element :: "jsval list \<Rightarrow> nat \<Rightarrow> jsval" where
  "element vs i = (if i < length vs then vs ! i else JUndefined)"

section \<open>The state of the dashboard and its load operations\<close>

record dashboard_data =
  report :: jsval
  progress :: jsval
  regressionTests :: jsval
  negativeTests :: jsval

record state =
  projects :: jsval
  selectedProject :: string
  selectedVersion :: string
  versions :: jsval
  dashboardData :: "dashboard_data option"
  loading :: bool
  error :: jsval

definition initial_state :: state where
  "initial_state =
     \<lparr>projects = JArr [], selectedProject = [], selectedVersion = [], versions = JArr [],
      dashboardData = None, loading = False, error = JStr []\<rparr>"

definition loadProjects ::
  "(request \<Rightarrow> jsval promise) \<Rightarrow> (jsval \<Rightarrow> js_error + jsval) \<Rightarrow> state \<Rightarrow> state" where
  "loadProjects fetch_json JSON_parse s =
     (case snd (callTool fetch_json JSON_parse ''get_projects'' []) of
        Inl err \<Rightarrow> s\<lparr>error := JStr (''Failed to load projects: '' @ message err)\<rparr>
      | Inr result \<Rightarrow>
         (case get_prop result ''error'' of
            Inl err \<Rightarrow> s\<lparr>error := JStr (''Failed to load projects: '' @ message err)\<rparr>
          | Inr e \<Rightarrow>
             if truthy e then s\<lparr>error := e\<rparr>
             else s\<lparr>projects := js_or (js_get result ''projects'') (JArr [])\<rparr>))"

text \<open>\<^verbatim>\<open>rs.map(r => r.version)\<close> on the elements of an array.\<close>

fun map_version :: "jsval list \<Rightarrow> js_error + jsval list" where
  "map_version [] = Inr []"
| "map_version (r # rs) =
     (case get_prop r ''version'' of
        Inl e \<Rightarrow> Inl e
      | Inr v \<Rightarrow> (case map_version rs of Inl e \<Rightarrow> Inl e | Inr vs \<Rightarrow> Inr (v # vs)))"

text \<open>
  \<^verbatim>\<open>releases?.map(r => r.version)\<close>: \<^verbatim>\<open>undefined\<close> when there are no releases, the
  mapped array when \<^verbatim>\<open>releases\<close> is an array, and a TypeError on anything else, which
  has no \<^verbatim>\<open>map\<close> method.
\<close>

fun releases_map :: "jsval \<Rightarrow> js_error + jsval" where
  "releases_map JUndefined = Inr JUndefined"
| "releases_map JNull = Inr JUndefined"
| "releases_map (JArr rs) =
     (case map_version rs of Inl e \<Rightarrow> Inl e | Inr vs \<Rightarrow> Inr (JArr vs))"
| "releases_map v = Inl (TypeError ''result.releases.map is not a function'')"

definition loadVersions ::
  "(request \<Rightarrow> jsval promise) \<Rightarrow> (jsval \<Rightarrow> js_error + jsval) \<Rightarrow> string \<Rightarrow> state \<Rightarrow> state" where
  "loadVersions fetch_json JSON_parse projectId s =
     (case snd (callTool fetch_json JSON_parse ''get_release_status''
                  [(''project_id'', JStr projectId)]) of
        Inl err \<Rightarrow> s\<lparr>error := JStr (''Failed to load versions: '' @ message err)\<rparr>
      | Inr result \<Rightarrow>
         (case get_prop result ''error'' of
            Inl err \<Rightarrow> s\<lparr>error := JStr (''Failed to load versions: '' @ message err)\<rparr>
          | Inr e \<Rightarrow>
             if truthy e then s\<lparr>error := e\<rparr>
             else (case releases_map (js_get result ''releases'') of
                     Inl err \<Rightarrow> s\<lparr>error := JStr (''Failed to load versions: '' @ message err)\<rparr>
                   | Inr vs \<Rightarrow> s\<lparr>versions := js_or vs (JArr [])\<rparr>)))"

text \<open>The four calls \<^verbatim>\<open>loadDashboard\<close> hands to \<^verbatim>\<open>Promise.all\<close>, in the order of the array.\<close>

definition dashboard_calls ::
  "(request \<Rightarrow> jsval promise) \<Rightarrow> (jsval \<Rightarrow> js_error + jsval) \<Rightarrow> state \<Rightarrow> jsval promise list" where
  "dashboard_calls fetch_json JSON_parse s =
     [callTool fetch_json JSON_parse ''generate_test_report''
        [(''project_id'', JStr (selectedProject s)), (''version_id'', JStr (selectedVersion s)),
         (''include_details'', JBool False)],
      callTool fetch_json JSON_parse ''get_execution_progress''
        [(''project_id'', JStr (selectedProject s)), (''version_id'', JStr (selectedVersion s))],
      callTool fetch_json JSON_parse ''get_regression_test_count''
        [(''project_id'', JStr (selectedProject s)), (''version_id'', JStr (selectedVersion s))],
      callTool fetch_json JSON_parse ''get_negative_test_count''
        [(''project_id'', JStr (selectedProject s)), (''version_id'', JStr (selectedVersion s))]]"

text \<open>
  \<^verbatim>\<open>loadDashboard\<close>: \<^verbatim>\<open>setLoading(true)\<close>, \<^verbatim>\<open>setError('')\<close>, then either
  \<^verbatim>\<open>setDashboardData\<close> with the four values or \<^verbatim>\<open>setError\<close> with the rejection, and
  \<^verbatim>\<open>setLoading(false)\<close> in every case.
\<close>

definition loadDashboard ::
  "(request \<Rightarrow> jsval promise) \<Rightarrow> (jsval \<Rightarrow> js_error + jsval) \<Rightarrow> state \<Rightarrow> state" where
  "loadDashboard fetch_json JSON_parse s =
     (let s1 = s\<lparr>loading := True\<rparr>;
          s2 = s1\<lparr>error := JStr []\<rparr>;
          s3 = (case snd (Promise_all (dashboard_calls fetch_json JSON_parse s)) of
                  Inr vs \<Rightarrow>
                    s2\<lparr>dashboardData :=
                         Some \<lparr>report = element vs 0, progress = element vs 1,
                               regressionTests = element vs 2, negativeTests = element vs 3\<rparr>\<rparr>
                | Inl err \<Rightarrow>
                    s2\<lparr>error := JStr (''Failed to load dashboard: '' @ message err)\<rparr>)
      in s3\<lparr>loading := False\<rparr>)"

definition refreshDashboard ::
  "(request \<Rightarrow> jsval promise) \<Rightarrow> (jsval \<Rightarrow> js_error + jsval) \<Rightarrow> state \<Rightarrow> state" where
  "refreshDashboard fetch_json JSON_parse s =
     (if selectedProject s \<noteq> [] \<and> selectedVersion s \<noteq> []
      then loadDashboard fetch_json JSON_parse s else s)"

text \<open>The Refresh button: \<^verbatim>\<open>disabled={!selectedProject || !selectedVersion || loading}\<close>.\<close>

definition refresh_disabled :: "state \<Rightarrow> bool" where
  "refresh_disabled s = (selectedProject s = [] \<or> selectedVersion s = [] \<or> loading s)"

text \<open>The error banner: \<^verbatim>\<open>{error && (...{error}...)}\<close>.\<close>

definition error_banner :: "state \<Rightarrow> jsval option" where
  "error_banner s = (if truthy (error s) then Some (error s) else None)"

section \<open>The key metrics\<close>

text \<open>
  The \<^verbatim>\<open>value\<close> of each of the seven metric cards. The two rates are the text of
  \<^verbatim>\<open>toFixed(1)\<close>, to which the card appends \<^verbatim>\<open>%\<close>.
\<close>

record key_metrics =
  total_tests :: jsval
  execution_rate :: display
  pass_rate :: display
  open_defects :: jsval
  regression_tests :: jsval
  negative_tests :: jsval
  test_cycles :: jsval

definition KeyMetrics :: "dashboard_data \<Rightarrow> js_error + key_metrics" where
  "KeyMetrics d =
     (case get_prop (report d) ''overall_metrics'' of
        Inl e \<Rightarrow> Inl e
      | Inr om \<Rightarrow>
         (case toFixed_call (js_or (opt_prop om ''execution_rate'') (JNum (Fin 0))) of
            Inl e \<Rightarrow> Inl e
          | Inr er \<Rightarrow>
             (case toFixed_call (js_or (opt_prop om ''pass_rate'') (JNum (Fin 0))) of
                Inl e \<Rightarrow> Inl e
              | Inr pr \<Rightarrow>
                 Inr \<lparr>total_tests = js_or (opt_prop om ''total_tests'') (JNum (Fin 0)),
                      execution_rate = er,
                      pass_rate = pr,
                      open_defects =
                        js_or (opt_prop (js_get (report d) ''defect_summary'') ''openDefects'')
                          (JNum (Fin 0)),
                      regression_tests =
                        js_or (opt_prop (regressionTests d) ''total_regression_tests'')
                          (JNum (Fin 0)),
                      negative_tests =
                        js_or (opt_prop (negativeTests d) ''negative_test_count'') (JNum (Fin 0)),
                      test_cycles =
                        js_or (opt_prop (js_get (report d) ''cycle_breakdown'') ''length'')
                          (JNum (Fin 0))\<rparr>)))"

text \<open>
  The cycle details: \<^verbatim>\<open>dashboardData.progress?.progress?.map(...)\<close>, one \<^verbatim>\<open>CycleCard\<close> for
  each element of the array of the progress call.
\<close>

fun cards :: "(jsval \<Rightarrow> jsnum) \<Rightarrow> jsval list \<Rightarrow> js_error + cycle_card list" where
  "cards c [] = Inr []"
| "cards c (x # xs) =
     (case CycleCard c x of
        Inl e \<Rightarrow> Inl e
      | Inr k \<Rightarrow> (case cards c xs of Inl e \<Rightarrow> Inl e | Inr ks \<Rightarrow> Inr (k # ks)))"

fun map_cards :: "(jsval \<Rightarrow> jsnum) \<Rightarrow> jsval \<Rightarrow> js_error + cycle_card list" where
  "map_cards c JUndefined = Inr []"
| "map_cards c JNull = Inr []"
| "map_cards c (JArr xs) = cards c xs"
| "map_cards c v = Inl (TypeError ''dashboardData.progress.progress.map is not a function'')"

definition CycleDetails :: "(jsval \<Rightarrow> jsnum) \<Rightarrow> dashboard_data \<Rightarrow> js_error + cycle_card list" where
  "CycleDetails c d = map_cards c (opt_prop (progress d) ''progress'')"

section \<open>A sample server\<close>

text \<open>
  Answers in the shape of the setup guide (\<^verbatim>\<open>zephyr_mcp_setup.md\<close>), used to run the
  definitions on concrete inputs. The report carries the overall counts, the two
  rates and the defect summary only. A JSON text is written as a keyword, \<^verbatim>\<open>REPORT\<close>
  for the text of the report and so on, and \<open>sample_parse\<close> maps each keyword to the
  value its text decodes to, rejecting every other text; \<open>no_numeric_text\<close> reads no
  string, array or object as a number.
\<close>

definition no_numeric_text :: "jsval \<Rightarrow> jsnum" where
  "no_numeric_text v = NaN"

definition smoke_cycle :: jsval where
  "smoke_cycle =
     JObj [(''cycle'', JObj [(''id'', JStr ''101''), (''name'', JStr ''Smoke Test''),
                             (''description'', JStr ''Basic functionality tests'')]),
           (''total_tests'', JNum (Fin 50)), (''passed'', JNum (Fin 45)),
           (''failed'', JNum (Fin 3)), (''blocked'', JNum (Fin 1)),
           (''unexecuted'', JNum (Fin 1))]"

definition release_cycle :: jsval where
  "release_cycle =
     JObj [(''cycle'', JObj [(''id'', JStr ''100''), (''name'', JStr ''Release'')]),
           (''total_tests'', JNum (Fin 450)), (''passed'', JNum (Fin 320)),
           (''failed'', JNum (Fin 45)), (''blocked'', JNum (Fin 15)),
           (''unexecuted'', JNum (Fin 70))]"

definition empty_cycle :: jsval where
  "empty_cycle =
     JObj [(''cycle'', JObj [(''id'', JStr ''102''), (''name'', JStr ''Not planned yet'')]),
           (''total_tests'', JNum (Fin 0)), (''passed'', JNum (Fin 0)),
           (''failed'', JNum (Fin 0)), (''blocked'', JNum (Fin 0)),
           (''unexecuted'', JNum (Fin 0))]"

text \<open>
  Three cycles on which the card does not show a rate near the exact one: one with
  very large counts, one without \<^verbatim>\<open>unexecuted\<close>, one without its \<^verbatim>\<open>cycle\<close> object.
\<close>

definition large_cycle :: jsval where
  "large_cycle =
     JObj [(''cycle'', JObj [(''id'', JStr ''103''), (''name'', JStr ''Load'')]),
           (''total_tests'', JNum (Fin 10000000000017)),
           (''passed'', JNum (Fin 8235000000014)),
           (''failed'', JNum (Fin 0)), (''blocked'', JNum (Fin 0)),
           (''unexecuted'', JNum (Fin 1765000000003))]"

definition uncounted_cycle :: jsval where
  "uncounted_cycle =
     JObj [(''cycle'', JObj [(''id'', JStr ''104''), (''name'', JStr ''Exploratory'')]),
           (''total_tests'', JNum (Fin 50)), (''passed'', JNum (Fin 45))]"

definition headless_cycle :: jsval where
  "headless_cycle =
     JObj [(''total_tests'', JNum (Fin 50)), (''passed'', JNum (Fin 45)),
           (''failed'', JNum (Fin 3)), (''blocked'', JNum (Fin 1)),
           (''unexecuted'', JNum (Fin 1))]"

definition sample_parse :: "jsval \<Rightarrow> js_error + jsval" where
  "sample_parse txt =
     (if txt = JStr ''REPORT'' then
        Inr (JObj [(''project_id'', JStr ''10001''), (''version_id'', JStr ''10100''),
                   (''overall_metrics'',
                      JObj [(''total_tests'', JNum (Fin 450)), (''passed'', JNum (Fin 320)),
                            (''failed'', JNum (Fin 45)), (''blocked'', JNum (Fin 15)),
                            (''unexecuted'', JNum (Fin 70)),
                            (''execution_rate'', JNum (Fin (844 / 10))),
                            (''pass_rate'', JNum (Fin (711 / 10)))]),
                   (''defect_summary'', JObj [(''totalDefects'', JNum (Fin 23)),
                                              (''openDefects'', JNum (Fin 8))])])
      else if txt = JStr ''PROGRESS'' then
        Inr (JObj [(''project_id'', JStr ''10001''), (''version_id'', JStr ''10100''),
                   (''progress'', JArr [smoke_cycle])])
      else if txt = JStr ''REGRESSION'' then
        Inr (JObj [(''project_id'', JStr ''10001''), (''version_id'', JStr ''10100''),
                   (''total_regression_tests'', JNum (Fin 125))])
      else if txt = JStr ''NEGATIVE'' then
        Inr (JObj [(''project_id'', JStr ''10001''), (''version_id'', JStr ''10100''),
                   (''negative_test_count'', JNum (Fin 35)),
                   (''total_tests'', JNum (Fin 450))])
      else if txt = JStr ''NO_RELEASES'' then
        Inr (JObj [(''project_id'', JStr ''10001''), (''releases'', JArr [])])
      else if txt = JStr ''UPSTREAM_ERROR'' then
        Inr (JObj [(''error'', JStr ''Version not found'')])
      else Inl (SyntaxError ''Unexpected token''))"

text \<open>The envelope of the protocol around a text: \<^verbatim>\<open>{result: {content: [{text}]}}\<close>.\<close>

definition envelope :: "string \<Rightarrow> jsval" where
  "envelope txt =
     JObj [(''result'',
            JObj [(''content'', JArr [JObj [(''type'', JStr ''text''), (''text'', JStr txt)]])])]"

text \<open>
  A server that answers every tool of the dashboard, the calls settling in the
  order negative count, progress, report, regression count.
\<close>

definition sample_server :: "request \<Rightarrow> jsval promise" where
  "sample_server req =
     (if name req = ''generate_test_report'' then (3, Inr (envelope ''REPORT''))
      else if name req = ''get_execution_progress'' then (2, Inr (envelope ''PROGRESS''))
      else if name req = ''get_regression_test_count'' then (4, Inr (envelope ''REGRESSION''))
      else if name req = ''get_negative_test_count'' then (1, Inr (envelope ''NEGATIVE''))
      else if name req = ''get_release_status'' then (1, Inr (envelope ''NO_RELEASES''))
      else (1, Inr (JObj [])))"

text \<open>The same server when the negative count cannot be fetched.\<close>

definition failing_server :: "request \<Rightarrow> jsval promise" where
  "failing_server req =
     (if name req = ''get_negative_test_count'' then (1, Inl (TypeError ''Failed to fetch''))
      else sample_server req)"

text \<open>The same server when the remote service answers every report with an error field.\<close>

definition upstream_error_server :: "request \<Rightarrow> jsval promise" where
  "upstream_error_server req =
     (if name req = ''generate_test_report'' \<or> name req = ''get_release_status''
      then (1, Inr (envelope ''UPSTREAM_ERROR''))
      else sample_server req)"

definition selected_state :: state where
  "selected_state = initial_state\<lparr>selectedProject := ''10001'', selectedVersion := ''10100''\<rparr>"

section \<open>Rounding to the nearest double\<close>

lemma two_powi_nat: "0 \<le> k \<Longrightarrow> (2::rat) powi k = 2 ^ nat k"
  by (simp add: power_int_def)

lemma ilog2_bounds:
  assumes "0 < a"
  shows "2 powi ilog2 a \<le> a \<and> a < 2 powi (ilog2 a + 1)"
proof -
  obtain p q where pq: "quotient_of a = (p, q)" by (cases "quotient_of a")
  then have a: "a = of_int p / of_int q" and q: "0 < q"
    by (simp_all add: quotient_of_div quotient_of_denom_pos)
  from assms a q have p: "0 < p" by (simp add: zero_less_divide_iff)
  define bp bq where "bp = bitlen p" and "bq = bitlen q"
  from p q have b1: "1 \<le> bp" "1 \<le> bq"
    unfolding bp_def bq_def by (simp_all add: bitlen_alt_def)
  from bitlen_bounds [OF p] have "(2::int) ^ nat (bp - 1) \<le> p" "p < 2 ^ nat bp"
    unfolding bp_def by simp_all
  then have "(of_int ((2::int) ^ nat (bp - 1)) :: rat) \<le> of_int p"
    and "(of_int p :: rat) < of_int (2 ^ nat bp)"
    by (simp_all only: of_int_le_iff of_int_less_iff)
  with b1 have P: "(2::rat) powi (bp - 1) \<le> of_int p" "of_int p < (2::rat) powi bp"
    by (simp_all add: two_powi_nat)
  from bitlen_bounds [OF q] have "(2::int) ^ nat (bq - 1) \<le> q" "q < 2 ^ nat bq"
    unfolding bq_def by simp_all
  then have "(of_int ((2::int) ^ nat (bq - 1)) :: rat) \<le> of_int q"
    and "(of_int q :: rat) < of_int (2 ^ nat bq)"
    by (simp_all only: of_int_le_iff of_int_less_iff)
  with b1 have Q: "(2::rat) powi (bq - 1) \<le> of_int q" "of_int q < (2::rat) powi bq"
    by (simp_all add: two_powi_nat)
  have qpos: "(0::rat) < of_int q" using q by simp
  have hi: "a < 2 powi (bp - bq + 1)"
  proof -
    have "a * 2 powi (bq - 1) \<le> a * of_int q"
      using Q(1) assms by (intro mult_left_mono) simp_all
    also have "\<dots> = of_int p" using a qpos by simp
    also have "\<dots> < 2 powi bp" by (rule P(2))
    finally have "a * 2 powi (bq - 1) < 2 powi bp" .
    then have "a < 2 powi bp / 2 powi (bq - 1)"
      by (simp add: pos_less_divide_eq)
    also have "\<dots> = 2 powi (bp - (bq - 1))" by (simp add: power_int_diff)
    finally show ?thesis by (simp add: algebra_simps)
  qed
  have lo: "2 powi (bp - bq - 1) < a"
  proof -
    have "(2::rat) powi (bp - 1) \<le> of_int p" by (rule P(1))
    also have "\<dots> = a * of_int q" using a qpos by simp
    also have "\<dots> < a * 2 powi bq"
      using Q(2) assms by (intro mult_strict_left_mono) simp_all
    finally have "2 powi (bp - 1) / 2 powi bq < a"
      by (simp add: pos_divide_less_eq)
    moreover have "(2::rat) powi (bp - 1) / 2 powi bq = 2 powi (bp - 1 - bq)"
      by (simp add: power_int_diff)
    ultimately show ?thesis by (simp add: algebra_simps)
  qed
  show ?thesis
  proof (cases "2 powi (bp - bq) \<le> a")
    case True
    then have "ilog2 a = bp - bq"
      by (simp add: ilog2_def pq bp_def bq_def)
    with True hi show ?thesis by simp
  next
    case False
    then have "ilog2 a = bp - bq - 1"
      by (simp add: ilog2_def pq bp_def bq_def)
    with False lo show ?thesis by simp
  qed
qed

lemma ilog2_unique:
  assumes "0 < a" and "2 powi e \<le> a" and "a < 2 powi (e + 1)"
  shows "ilog2 a = e"
proof (rule ccontr)
  assume ne: "ilog2 a \<noteq> e"
  from ilog2_bounds [OF assms(1)]
  have b: "2 powi ilog2 a \<le> a" "a < 2 powi (ilog2 a + 1)" by simp_all
  show False
  proof (cases "ilog2 a < e")
    case True
    then have "(2::rat) powi (ilog2 a + 1) \<le> 2 powi e"
      by (intro power_int_increasing) simp_all
    with b(2) assms(2) show False by simp
  next
    case False
    with ne have "e + 1 \<le> ilog2 a" by simp
    then have "(2::rat) powi (e + 1) \<le> 2 powi ilog2 a"
      by (intro power_int_increasing) simp_all
    with b(1) assms(3) show False by simp
  qed
qed

lemma ilog2_less:
  assumes "0 < a" and "a < 2 powi k"
  shows "ilog2 a < k"
proof (rule ccontr)
  assume "\<not> ilog2 a < k"
  then have "(2::rat) powi k \<le> 2 powi ilog2 a"
    by (intro power_int_increasing) simp_all
  with ilog2_bounds [OF assms(1)] assms(2) show False by simp
qed

lemma ilog2_ge:
  assumes "0 < a" and "2 powi k \<le> a"
  shows "k \<le> ilog2 a"
proof (rule ccontr)
  assume "\<not> k \<le> ilog2 a"
  then have "(2::rat) powi (ilog2 a + 1) \<le> 2 powi k"
    by (intro power_int_increasing) simp_all
  with ilog2_bounds [OF assms(1)] assms(2) show False by simp
qed

lemma round_half_even_close: "\<bar>of_int (round_half_even m) - m\<bar> \<le> 1 / 2"
proof -
  have "of_int \<lfloor>m\<rfloor> \<le> m" "m < of_int \<lfloor>m\<rfloor> + 1" by linarith+
  then show ?thesis
    by (auto simp add: round_half_even_def Let_def abs_le_iff) 
qed

lemma round_half_even_of_int: "round_half_even (of_int k) = k"
  by (simp add: round_half_even_def)


lemma round64_zero: "round64 0 = Fin 0"
  by (simp add: round64_def)

lemma round64_normal:
  assumes "2 powi (- 1022) \<le> \<bar>x\<bar>" and "\<bar>x\<bar> < 2 powi 1023"
  shows "\<exists>y. round64 x = Fin y \<and> \<bar>y - x\<bar> \<le> \<bar>x\<bar> / 2 ^ 53 \<and> (0 < x \<longrightarrow> 0 < y)"
proof -
  define a where "a = \<bar>x\<bar>"
  have "(0::rat) < 2 powi (- 1022)" by (rule zero_less_power_int) simp
  with assms(1) have apos: "0 < a" unfolding a_def by linarith
  then have x0: "x \<noteq> 0" unfolding a_def by auto
  define e where "e = ilog2 a"
  from ilog2_bounds [OF apos] have eb: "2 powi e \<le> a" "a < 2 powi (e + 1)"
    unfolding e_def by simp_all
  from assms(1) have elo: "- 1022 \<le> e"
    unfolding e_def a_def [symmetric] by (intro ilog2_ge apos)
  from assms(2) have "e < 1023"
    unfolding e_def a_def [symmetric] by (intro ilog2_less apos)
  define P :: rat where "P = 2 powi (e - 52)"
  have Ppos: "0 < P" unfolding P_def by (rule zero_less_power_int) simp
  have "P = 2 powi e / 2 powi 52" unfolding P_def by (simp add: power_int_diff)
  then have P52: "P * 2 ^ 52 = 2 powi e" by simp
  with eb(1) have Pa: "P * 2 ^ 52 \<le> a" by simp
  define n where "n = round_half_even (a / P)"
  define r where "r = of_int n * P"
  have "\<bar>of_int n - a / P\<bar> \<le> 1 / 2" unfolding n_def by (rule round_half_even_close)
  then have "\<bar>of_int n - a / P\<bar> * P \<le> 1 / 2 * P"
    using Ppos by (intro mult_right_mono) simp_all
  moreover have "\<bar>of_int n - a / P\<bar> * P = \<bar>r - a\<bar>"
  proof -
    have "\<bar>of_int n - a / P\<bar> * P = \<bar>(of_int n - a / P) * P\<bar>"
      using Ppos by (simp add: abs_mult)
    also have "(of_int n - a / P) * P = r - a"
      using Ppos by (simp add: r_def algebra_simps)
    finally show ?thesis .
  qed
  ultimately have ra: "\<bar>r - a\<bar> \<le> P / 2" by simp
  from Pa have "P / 2 \<le> a / 2 ^ 53" by simp
  with ra have close: "\<bar>r - a\<bar> \<le> a / 2 ^ 53" by linarith
  have "a / 2 ^ 53 < a" using apos by simp
  with close have rpos: "0 < r" and "r < 2 * a" by linarith+
  have "2 * a < 2 * 2 powi 1023" using assms(2) unfolding a_def by simp
  also have "\<dots> = (2::rat) powi 1024" by simp
  finally have "2 * a < 2 powi 1024" .
  with \<open>r < 2 * a\<close> have "r < 2 powi 1024" by linarith
  then have nover: "\<not> 1024 \<le> ilog2 r" using ilog2_less [OF rpos] by fastforce
  have q: "max (ilog2 \<bar>x\<bar>) (- 1022) - 52 = e - 52"
    using elo unfolding e_def a_def by simp
  have val: "round64 x = Fin (if x < 0 then - r else r)"
    using x0 nover
    by (simp add: round64_def Let_def q r_def n_def a_def P_def del: power_int_numeral)
  show ?thesis
  proof (cases "x < 0")
    case True
    then have "a = - x" unfolding a_def by simp
    with close True val show ?thesis
      unfolding a_def [symmetric] by (auto simp add: abs_le_iff)
  next
    case False
    then have "a = x" unfolding a_def by simp
    with close False val rpos show ?thesis
      unfolding a_def [symmetric] by auto
  qed
qed

lemma round64_of_int:
  assumes "\<bar>k\<bar> < 2 ^ 53"
  shows "round64 (of_int k) = Fin (of_int k)"
proof (cases "k = 0")
  case True
  then show ?thesis by (simp add: round64_zero)
next
  case False
  define a :: rat where "a = \<bar>of_int k\<bar>"
  have ak: "a = of_int \<bar>k\<bar>" unfolding a_def by simp
  from False have "1 \<le> \<bar>k\<bar>" by simp
  then have a1: "1 \<le> a" unfolding ak by (simp only: of_int_1_le_iff)
  then have apos: "0 < a" by simp
  from assms have "(of_int \<bar>k\<bar> :: rat) < of_int (2 ^ 53)" by (simp only: of_int_less_iff)
  then have a53: "a < 2 powi 53" unfolding ak by simp
  define e where "e = ilog2 a"
  have "(2::rat) powi 0 \<le> a" using a1 by simp
  then have e0: "0 \<le> e" unfolding e_def by (intro ilog2_ge apos)
  have e53: "e < 53" unfolding e_def using a53 by (intro ilog2_less apos)
  define j where "j = nat (52 - e)"
  have ej: "e - 52 = - int j" unfolding j_def using e53 by simp
  have P: "(2::rat) powi (e - 52) = inverse (2 ^ j)"
    unfolding ej by (simp add: power_int_minus)
  have m: "a / 2 powi (e - 52) = of_int (\<bar>k\<bar> * 2 ^ j)"
    unfolding P ak by (simp add: divide_inverse)
  have n: "round_half_even (a / 2 powi (e - 52)) = \<bar>k\<bar> * 2 ^ j"
    unfolding m by (rule round_half_even_of_int)
  have r: "of_int (round_half_even (a / 2 powi (e - 52))) * 2 powi (e - 52) = a"
  proof -
    have "of_int (round_half_even (a / 2 powi (e - 52))) * (2::rat) powi (e - 52) =
        of_int (\<bar>k\<bar> * 2 ^ j) * 2 powi (e - 52)"
      by (simp only: n)
    also have "\<dots> = of_int (\<bar>k\<bar> * 2 ^ j) * inverse (2 ^ j)"
      by (simp only: P)
    also have "\<dots> = a" unfolding ak by simp
    finally show ?thesis .
  qed
  have "a < 2 powi 1024"
  proof -
    have "(2::rat) powi 53 \<le> 2 powi 1024" by (intro power_int_increasing) simp_all
    with a53 show ?thesis by linarith
  qed
  then have nover: "\<not> 1024 \<le> ilog2 a" using ilog2_less [OF apos] by fastforce
  have q: "max (ilog2 a) (- 1022) - 52 = e - 52"
    using e0 unfolding e_def by simp
  have k0: "(of_int k :: rat) \<noteq> 0" using False by simp
  have "round64 (of_int k) =
      (if 1024 \<le> ilog2 (of_int (round_half_even (a / 2 powi (e - 52))) * 2 powi (e - 52))
       then (if (of_int k :: rat) < 0 then NegInf else PosInf)
       else Fin (if (of_int k :: rat) < 0
                 then - (of_int (round_half_even (a / 2 powi (e - 52))) * 2 powi (e - 52))
                 else of_int (round_half_even (a / 2 powi (e - 52))) * 2 powi (e - 52)))"
    unfolding round64_def Let_def a_def [symmetric] q using k0 by (simp only: if_False)
  then have "round64 (of_int k) = Fin (if (of_int k :: rat) < 0 then - a else a)"
    unfolding r using nover by simp
  then show ?thesis unfolding a_def by (simp add: abs_if)
qed

section \<open>Rounding to one decimal\<close>

lemma nearest_tenths_close:
  assumes "0 \<le> a"
  shows "\<bar>of_nat (nearest_tenths a) / 10 - a\<bar> \<le> 1 / 20"
proof -
  let ?n = "\<lfloor>a * 10 + 1 / 2\<rfloor>"
  have nn: "0 \<le> ?n" using assms by simp
  have eq: "(of_nat (nearest_tenths a) :: rat) = of_int ?n"
    unfolding nearest_tenths_def using nn by simp
  have lo: "of_int ?n \<le> a * 10 + 1 / 2" by (rule of_int_floor_le)
  have hi: "a * 10 + 1 / 2 < of_int ?n + 1" by linarith
  from lo hi have "\<bar>of_int ?n / 10 - a\<bar> \<le> 1 / 20" by linarith
  then show ?thesis unfolding eq .
qed

lemma toFixed1_value:
  "display_value (toFixed1 (Fin x)) =
     Some (if 10 ^ 21 \<le> \<bar>x\<bar> then x
           else (if x < 0 then - 1 else 1) * of_nat (nearest_tenths \<bar>x\<bar>) / 10)"
  by simp

lemma toFixed1_close:
  "\<exists>r. display_value (toFixed1 (Fin x)) = Some r \<and> \<bar>r - x\<bar> \<le> 1 / 20"
proof -
  let ?r = "if 10 ^ 21 \<le> \<bar>x\<bar> then x
            else (if x < 0 then - 1 else 1) * of_nat (nearest_tenths \<bar>x\<bar>) / 10"
  have close: "\<bar>of_nat (nearest_tenths \<bar>x\<bar>) / 10 - \<bar>x\<bar>\<bar> \<le> 1 / 20"
    by (rule nearest_tenths_close) simp
  have "\<bar>?r - x\<bar> \<le> 1 / 20"
  proof (cases "10 ^ 21 \<le> \<bar>x\<bar>")
    case True
    then show ?thesis by simp
  next
    case False
    show ?thesis
    proof (cases "x < 0")
      case True
      then have "\<bar>- (of_nat (nearest_tenths \<bar>x\<bar>) / 10) - x\<bar> \<le> 1 / 20"
        using close by linarith
      with True False show ?thesis by simp
    next
      case nonneg: False
      then have "\<bar>of_nat (nearest_tenths \<bar>x\<bar>) / 10 - x\<bar> \<le> 1 / 20"
        using close by linarith
      with nonneg False show ?thesis by simp
    qed
  qed
  with toFixed1_value [of x] show ?thesis by blast
qed

lemma nearest_tenths_0: "nearest_tenths 0 = 0"
  by (simp add: nearest_tenths_def)

section \<open>Properties of the progress bar and the cycle card\<close>

lemma percentage_zero_total: "percentage c v (JNum (Fin 0)) = Fin 0"
  by (simp add: percentage_def round64_zero)

lemma canon_of_int: "\<bar>k\<bar> < 2 ^ 53 \<Longrightarrow> canon (Fin (of_int k)) = Fin (of_int k)"
  by (simp add: round64_of_int)

lemma canon_zero: "canon (Fin 0) = Fin 0"
  by (simp add: round64_zero)

lemma abs_chain:
  fixes x :: rat
  shows "\<bar>x - E\<bar> \<le> a \<Longrightarrow> \<bar>r - x\<bar> \<le> b \<Longrightarrow> \<bar>r - E\<bar> \<le> b + a"
  by linarith

lemma percentage_counts:
  assumes "0 \<le> v" and "v \<le> t" and "0 < t" and "t < 2 ^ 53"
  shows "\<exists>p. percentage c (JNum (Fin (of_int v))) (JNum (Fin (of_int t))) = Fin p \<and>
           \<bar>p - of_int v / of_int t * 100\<bar> \<le> 1 / 10 ^ 13"
proof -
  have cv: "canon (Fin (of_int v)) = Fin (of_int v)"
    by (rule canon_of_int) (use assms in simp)
  have ct: "canon (Fin (of_int t)) = Fin (of_int t)"
    by (rule canon_of_int) (use assms in simp)
  have tpos: "(0::rat) < of_int t" using assms(3) by simp
  have perc: "percentage c (JNum (Fin (of_int v))) (JNum (Fin (of_int t))) =
      num_mul (round64 (of_int v / of_int t)) (Fin 100)"
    using tpos by (simp add: percentage_def cv ct del: canon.simps)
  show ?thesis
  proof (cases "v = 0")
    case True
    from perc have "percentage c (JNum (Fin (of_int v))) (JNum (Fin (of_int t))) = Fin 0"
      unfolding True by (simp add: round64_zero)
    then show ?thesis unfolding True by simp
  next
    case False
    define x :: rat where "x = of_int v / of_int t"
    from False assms(1) have "1 \<le> v" by simp
    then have v1: "(1::rat) \<le> of_int v" by (simp only: of_int_1_le_iff)
    have vt: "(of_int v :: rat) \<le> of_int t" using assms(2) by (simp only: of_int_le_iff)
    from assms(4) have "(of_int t :: rat) < of_int (2 ^ 53)" by (simp only: of_int_less_iff)
    then have t53: "(of_int t :: rat) < 2 ^ 53" by simp
    have x1: "x \<le> 1" unfolding x_def using vt tpos by (simp add: pos_divide_le_eq)
    have "1 / of_int t \<le> x" unfolding x_def using v1 tpos by (simp add: divide_right_mono)
    moreover have "(1::rat) / 2 ^ 53 < 1 / of_int t"
      using t53 tpos by (simp add: frac_less2)
    ultimately have xlo: "1 / 2 ^ 53 < x" by linarith
    have small: "(2::rat) powi (- 1022) \<le> 1 / 2 ^ 53"
    proof -
      have "(2::rat) powi (- 1022) \<le> 2 powi (- 53)"
        by (intro power_int_increasing) simp_all
      also have "\<dots> = 1 / 2 ^ 53" by simp
      finally show ?thesis .
    qed
    have big: "(256::rat) \<le> 2 powi 1023"
    proof -
      have "(2::rat) powi 8 \<le> 2 powi 1023" by (intro power_int_increasing) simp_all
      then show ?thesis by simp
    qed
    have xpos: "0 < x" using xlo by (simp add: less_trans [OF _ xlo])
    have "2 powi (- 1022) \<le> \<bar>x\<bar>" and "\<bar>x\<bar> < 2 powi 1023"
      using small big xlo x1 xpos by linarith+
    from round64_normal [OF this] xpos obtain d where
      d: "round64 x = Fin d" "\<bar>d - x\<bar> \<le> \<bar>x\<bar> / 2 ^ 53" "0 < d"
      by blast
    have e53: "(2::rat) ^ 53 = 9007199254740992" by simp
    from d(2) xpos have dx: "\<bar>d - x\<bar> \<le> x / 9007199254740992"
      unfolding e53 by simp
    have dlo: "x / 2 \<le> d" and dhi: "d \<le> 2"
      using dx x1 xpos by linarith+
    from xlo have xlo': "1 / 9007199254740992 < x" unfolding e53 .
    from small have small': "(2::rat) powi (- 1022) \<le> 1 / 9007199254740992" unfolding e53 .
    have d100: "\<bar>d * 100\<bar> = d * 100" using d(3) by simp
    have "2 powi (- 1022) \<le> \<bar>d * 100\<bar>" and "\<bar>d * 100\<bar> < 2 powi 1023"
      unfolding d100 using small' big xlo' dlo dhi by linarith+
    from round64_normal [OF this] obtain p where
      p: "round64 (d * 100) = Fin p" "\<bar>p - d * 100\<bar> \<le> \<bar>d * 100\<bar> / 2 ^ 53"
      by blast
    from p(2) have pd: "\<bar>p - d * 100\<bar> \<le> d * 100 / 9007199254740992"
      unfolding d100 e53 .
    have "\<bar>p - x * 100\<bar> \<le> 1 / 10000000000000"
      using pd dx x1 xpos by linarith
    then have "\<bar>p - x * 100\<bar> \<le> 1 / 10 ^ 13" by simp
    with p(1) d(1) show ?thesis unfolding perc x_def [symmetric] by simp
  qed
qed

lemma js_get_not_nullish: "js_get v k \<noteq> JUndefined \<Longrightarrow> \<not> nullish v"
  by (cases v) auto

lemma CycleCard_present:
  assumes "\<not> nullish cycle" and "\<not> nullish (js_get cycle ''cycle'')"
  shows "CycleCard c cycle =
     Inr \<lparr>card_name = js_get (js_get cycle ''cycle'') ''name'',
          card_description = js_get (js_get cycle ''cycle'') ''description'',
          card_total = js_get cycle ''total_tests'',
          card_passed = js_get cycle ''passed'',
          card_failed = js_get cycle ''failed'',
          card_blocked = js_get cycle ''blocked'',
          card_unexecuted = js_get cycle ''unexecuted'',
          execution_bar =
            ProgressBar c ''Execution Progress''
              (JNum (num_sub (ToNumber c (js_get cycle ''total_tests''))
                             (ToNumber c (js_get cycle ''unexecuted''))))
              (js_get cycle ''total_tests'') ''blue'',
          pass_bar = ProgressBar c ''Pass Rate'' (js_get cycle ''passed'')
                       (js_get cycle ''total_tests'') ''green''\<rparr>"
  using assms by (simp add: CycleCard_def get_prop_def)

text \<open>
  Claim C3, as amended. For a cycle that has its \<^verbatim>\<open>cycle\<close> object and whose
  \<^verbatim>\<open>total_tests\<close> and \<^verbatim>\<open>unexecuted\<close> are whole numbers with
  \<open>0 \<le> unexecuted \<le> total\<close> and \<open>0 < total < 2^53\<close>, the card is rendered and the
  execution rate it shows is within \<open>0.05 + 10^-13\<close> of
  \<open>(total - unexecuted) / total * 100\<close>: the card rounds to one decimal the double
  the three operations give, which is within \<open>10^-13\<close> of the exact rate. The same
  holds for the pass rate and \<open>passed / total * 100\<close> when \<^verbatim>\<open>passed\<close> is a whole
  number from \<open>0\<close> to the total. For total 450, unexecuted 70 and passed 320 the card
  shows \<^verbatim>\<open>84.4\<close> and \<^verbatim>\<open>71.1\<close>.
\<close>

theorem CycleCard_execution_rate:
  assumes "js_get cycle ''total_tests'' = JNum (Fin (of_int t))"
    and "0 < t" and "t < 2 ^ 53"
    and "js_get cycle ''unexecuted'' = JNum (Fin (of_int u))"
    and "0 \<le> u" and "u \<le> t"
    and "\<not> nullish (js_get cycle ''cycle'')"
  shows "(\<exists>k r. CycleCard c cycle = Inr k \<and>
            display_value (bar_percent (execution_bar k)) = Some r \<and>
            \<bar>r - (of_int t - of_int u) / of_int t * 100\<bar> \<le> 1 / 20 + 1 / 10 ^ 13) \<and>
         (\<forall>p. js_get cycle ''passed'' = JNum (Fin (of_int p)) \<and> 0 \<le> p \<and> p \<le> t \<longrightarrow>
            (\<exists>k r. CycleCard c cycle = Inr k \<and>
               display_value (bar_percent (pass_bar k)) = Some r \<and>
               \<bar>r - of_int p / of_int t * 100\<bar> \<le> 1 / 20 + 1 / 10 ^ 13)) \<and>
         (\<exists>k. CycleCard c release_cycle = Inr k \<and>
            bar_percent (execution_bar k) = Fixed1 False 844 \<and>
            bar_percent (pass_bar k) = Fixed1 False 711)"
proof (intro conjI allI impI)
  from assms(1) have nn: "\<not> nullish cycle"
    by (intro js_get_not_nullish [of cycle "''total_tests''"]) simp
  note shown = CycleCard_present [OF nn assms(7)]
  have ct: "canon (Fin (of_int t)) = Fin (of_int t)"
    by (rule canon_of_int) (use assms in simp)
  have cu: "canon (Fin (of_int u)) = Fin (of_int u)"
    by (rule canon_of_int) (use assms in simp)
  have "\<bar>t - u\<bar> < 2 ^ 53" using assms by simp
  then have "round64 (of_int (t - u)) = Fin (of_int (t - u))" by (rule round64_of_int)
  then have sub: "num_sub (ToNumber c (JNum (Fin (of_int t)))) (ToNumber c (JNum (Fin (of_int u)))) =
      Fin (of_int (t - u))"
    by (simp add: ct cu del: canon.simps)
  have "0 \<le> t - u" and "t - u \<le> t" using assms by simp_all
  from percentage_counts [OF this assms(2,3), of c] obtain x where
    x: "percentage c (JNum (Fin (of_int (t - u)))) (JNum (Fin (of_int t))) = Fin x"
    "\<bar>x - of_int (t - u) / of_int t * 100\<bar> \<le> 1 / 10 ^ 13"
    by blast
  obtain r where r: "display_value (toFixed1 (Fin x)) = Some r" "\<bar>r - x\<bar> \<le> 1 / 20"
    using toFixed1_close by blast
  from x(2) have "\<bar>x - (of_int t - of_int u) / of_int t * 100\<bar> \<le> 1 / 10 ^ 13"
    by (simp only: of_int_diff)
  from abs_chain [OF this r(2)]
  have "\<bar>r - (of_int t - of_int u) / of_int t * 100\<bar> \<le> 1 / 20 + 1 / 10 ^ 13" .
  with r(1) x(1) show "\<exists>k r. CycleCard c cycle = Inr k \<and>
            display_value (bar_percent (execution_bar k)) = Some r \<and>
            \<bar>r - (of_int t - of_int u) / of_int t * 100\<bar> \<le> 1 / 20 + 1 / 10 ^ 13"
    unfolding shown assms(1,4) sub by (simp add: ProgressBar_def del: toFixed1.simps)
  fix p
  assume p: "js_get cycle ''passed'' = JNum (Fin (of_int p)) \<and> 0 \<le> p \<and> p \<le> t"
  then have "0 \<le> p" and "p \<le> t" by simp_all
  from percentage_counts [OF this assms(2,3), of c] obtain y where
    y: "percentage c (JNum (Fin (of_int p))) (JNum (Fin (of_int t))) = Fin y"
    "\<bar>y - of_int p / of_int t * 100\<bar> \<le> 1 / 10 ^ 13"
    by blast
  obtain r' where r': "display_value (toFixed1 (Fin y)) = Some r'" "\<bar>r' - y\<bar> \<le> 1 / 20"
    using toFixed1_close by blast
  from abs_chain [OF y(2) r'(2)]
  have "\<bar>r' - of_int p / of_int t * 100\<bar> \<le> 1 / 20 + 1 / 10 ^ 13" .
  with r'(1) y(1) p show "\<exists>k r. CycleCard c cycle = Inr k \<and>
            display_value (bar_percent (pass_bar k)) = Some r \<and>
            \<bar>r - of_int p / of_int t * 100\<bar> \<le> 1 / 20 + 1 / 10 ^ 13"
    unfolding shown assms(1) by (simp add: ProgressBar_def del: toFixed1.simps)
next
  have s: "num_sub (ToNumber c (JNum (Fin 450))) (ToNumber c (JNum (Fin 70))) = Fin 380"
    by code_simp
  have e: "toFixed1 (percentage c (JNum (Fin 380)) (JNum (Fin 450))) = Fixed1 False 844"
    by code_simp
  have p: "toFixed1 (percentage c (JNum (Fin 320)) (JNum (Fin 450))) = Fixed1 False 711"
    by code_simp
  have "\<not> nullish release_cycle" and "\<not> nullish (js_get release_cycle ''cycle'')"
    by (simp_all add: release_cycle_def)
  note shown = CycleCard_present [OF this]
  have f: "js_get release_cycle ''total_tests'' = JNum (Fin 450)"
    "js_get release_cycle ''unexecuted'' = JNum (Fin 70)"
    "js_get release_cycle ''passed'' = JNum (Fin 320)"
    by (simp_all add: release_cycle_def)
  show "\<exists>k. CycleCard c release_cycle = Inr k \<and>
            bar_percent (execution_bar k) = Fixed1 False 844 \<and>
            bar_percent (pass_bar k) = Fixed1 False 711"
    unfolding shown f s by (simp add: ProgressBar_def e p)
qed

theorem CycleCard_execution_rate_witness:
  "js_get smoke_cycle ''total_tests'' = JNum (Fin (of_int 50)) \<and> (0::int) < 50 \<and>
   (50::int) < 2 ^ 53 \<and>
   js_get smoke_cycle ''unexecuted'' = JNum (Fin (of_int 1)) \<and> (0::int) \<le> 1 \<and>
   (1::int) \<le> 50 \<and> \<not> nullish (js_get smoke_cycle ''cycle'') \<and>
   (\<exists>k r. CycleCard no_numeric_text smoke_cycle = Inr k \<and>
      display_value (bar_percent (execution_bar k)) = Some r \<and>
      \<bar>r - (of_int 50 - of_int 1) / of_int 50 * 100\<bar> \<le> 1 / 20 + 1 / 10 ^ 13)"
proof -
  have h1: "js_get smoke_cycle ''total_tests'' = JNum (Fin (of_int 50))"
    and h4: "js_get smoke_cycle ''unexecuted'' = JNum (Fin (of_int 1))"
    and h7: "\<not> nullish (js_get smoke_cycle ''cycle'')"
    by (simp_all add: smoke_cycle_def)
  have h2: "(0::int) < 50" and h3: "(50::int) < 2 ^ 53"
    and h5: "(0::int) \<le> 1" and h6: "(1::int) \<le> 50"
    by simp_all
  from CycleCard_execution_rate [OF h1 h2 h3 h4 h5 h6 h7, of no_numeric_text]
    h1 h2 h3 h4 h5 h6 h7
  show ?thesis by blast
qed

text \<open>
  Claim C3 as stated fails. With total 10000000000017 and unexecuted 1765000000003
  the exact rate is just above 82.35 and the card shows \<^verbatim>\<open>82.3\<close>, more than \<open>0.05\<close>
  away, because the double the operations give lies just below 82.35. A cycle with
  a positive total and no \<^verbatim>\<open>unexecuted\<close> shows \<^verbatim>\<open>NaN\<close>, and a cycle with a positive
  total and no \<^verbatim>\<open>cycle\<close> object is not rendered: reading its name throws.
\<close>

theorem displayed_rate_outside_tolerance:
  "CycleCard no_numeric_text large_cycle =
     Inr \<lparr>card_name = JStr ''Load'', card_description = JUndefined,
          card_total = JNum (Fin 10000000000017), card_passed = JNum (Fin 8235000000014),
          card_failed = JNum (Fin 0), card_blocked = JNum (Fin 0),
          card_unexecuted = JNum (Fin 1765000000003),
          execution_bar =
            \<lparr>bar_label = ''Execution Progress'', bar_value = JNum (Fin 8235000000014),
             bar_total = JNum (Fin 10000000000017), bar_percent = Fixed1 False 823,
             bar_width = Fin (2897433041515315 / 35184372088832), bar_color = ''blue''\<rparr>,
          pass_bar =
            \<lparr>bar_label = ''Pass Rate'', bar_value = JNum (Fin 8235000000014),
             bar_total = JNum (Fin 10000000000017), bar_percent = Fixed1 False 823,
             bar_width = Fin (2897433041515315 / 35184372088832), bar_color = ''green''\<rparr>\<rparr> \<and>
   (1::rat) / 20 <
     \<bar>823 / 10 - (10000000000017 - 1765000000003) / 10000000000017 * 100\<bar> \<and>
   CycleCard no_numeric_text uncounted_cycle =
     Inr \<lparr>card_name = JStr ''Exploratory'', card_description = JUndefined,
          card_total = JNum (Fin 50), card_passed = JNum (Fin 45),
          card_failed = JUndefined, card_blocked = JUndefined,
          card_unexecuted = JUndefined,
          execution_bar =
            \<lparr>bar_label = ''Execution Progress'', bar_value = JNum NaN,
             bar_total = JNum (Fin 50), bar_percent = Plain NaN,
             bar_width = NaN, bar_color = ''blue''\<rparr>,
          pass_bar =
            \<lparr>bar_label = ''Pass Rate'', bar_value = JNum (Fin 45),
             bar_total = JNum (Fin 50), bar_percent = Fixed1 False 900,
             bar_width = Fin 90, bar_color = ''green''\<rparr>\<rparr> \<and>
   CycleCard no_numeric_text headless_cycle =
     Inl (TypeError ''Cannot read properties of undefined or null (reading name)'')"
proof -
  have s: "num_sub (ToNumber no_numeric_text (JNum (Fin 10000000000017)))
             (ToNumber no_numeric_text (JNum (Fin 1765000000003))) = Fin 8235000000014"
    by code_simp
  have w: "percentage no_numeric_text (JNum (Fin 8235000000014)) (JNum (Fin 10000000000017)) =
      Fin (2897433041515315 / 35184372088832)"
    by code_simp
  have f: "toFixed1 (Fin (2897433041515315 / 35184372088832)) = Fixed1 False 823"
    by code_simp
  have "\<not> nullish large_cycle" and "\<not> nullish (js_get large_cycle ''cycle'')"
    by (simp_all add: large_cycle_def)
  note shown = CycleCard_present [OF this]
  have g: "js_get large_cycle ''total_tests'' = JNum (Fin 10000000000017)"
    "js_get large_cycle ''unexecuted'' = JNum (Fin 1765000000003)"
    "js_get large_cycle ''passed'' = JNum (Fin 8235000000014)"
    "js_get large_cycle ''failed'' = JNum (Fin 0)"
    "js_get large_cycle ''blocked'' = JNum (Fin 0)"
    "js_get (js_get large_cycle ''cycle'') ''name'' = JStr ''Load''"
    "js_get (js_get large_cycle ''cycle'') ''description'' = JUndefined"
    by (simp_all add: large_cycle_def)
  have large: "CycleCard no_numeric_text large_cycle =
     Inr \<lparr>card_name = JStr ''Load'', card_description = JUndefined,
          card_total = JNum (Fin 10000000000017), card_passed = JNum (Fin 8235000000014),
          card_failed = JNum (Fin 0), card_blocked = JNum (Fin 0),
          card_unexecuted = JNum (Fin 1765000000003),
          execution_bar =
            \<lparr>bar_label = ''Execution Progress'', bar_value = JNum (Fin 8235000000014),
             bar_total = JNum (Fin 10000000000017), bar_percent = Fixed1 False 823,
             bar_width = Fin (2897433041515315 / 35184372088832), bar_color = ''blue''\<rparr>,
          pass_bar =
            \<lparr>bar_label = ''Pass Rate'', bar_value = JNum (Fin 8235000000014),
             bar_total = JNum (Fin 10000000000017), bar_percent = Fixed1 False 823,
             bar_width = Fin (2897433041515315 / 35184372088832), bar_color = ''green''\<rparr>\<rparr>"
    unfolding shown g s ProgressBar_def w f by simp
  have far: "(1::rat) / 20 <
     \<bar>823 / 10 - (10000000000017 - 1765000000003) / 10000000000017 * 100\<bar>"
    by simp
  have t50: "ToNumber no_numeric_text (JNum (Fin 50)) = Fin 50"
    and w45: "percentage no_numeric_text (JNum (Fin 45)) (JNum (Fin 50)) = Fin 90"
    and f90: "toFixed1 (Fin 90) = Fixed1 False 900"
    by code_simp+
  have wn: "percentage no_numeric_text (JNum NaN) (JNum (Fin 50)) = NaN"
    unfolding percentage_def t50 by simp
  have "\<not> nullish uncounted_cycle" and "\<not> nullish (js_get uncounted_cycle ''cycle'')"
    by (simp_all add: uncounted_cycle_def)
  note shown' = CycleCard_present [OF this]
  have g': "js_get uncounted_cycle ''total_tests'' = JNum (Fin 50)"
    "js_get uncounted_cycle ''unexecuted'' = JUndefined"
    "js_get uncounted_cycle ''passed'' = JNum (Fin 45)"
    "js_get uncounted_cycle ''failed'' = JUndefined"
    "js_get uncounted_cycle ''blocked'' = JUndefined"
    "js_get (js_get uncounted_cycle ''cycle'') ''name'' = JStr ''Exploratory''"
    "js_get (js_get uncounted_cycle ''cycle'') ''description'' = JUndefined"
    by (simp_all add: uncounted_cycle_def)
  have uncounted: "CycleCard no_numeric_text uncounted_cycle =
     Inr \<lparr>card_name = JStr ''Exploratory'', card_description = JUndefined,
          card_total = JNum (Fin 50), card_passed = JNum (Fin 45),
          card_failed = JUndefined, card_blocked = JUndefined,
          card_unexecuted = JUndefined,
          execution_bar =
            \<lparr>bar_label = ''Execution Progress'', bar_value = JNum NaN,
             bar_total = JNum (Fin 50), bar_percent = Plain NaN,
             bar_width = NaN, bar_color = ''blue''\<rparr>,
          pass_bar =
            \<lparr>bar_label = ''Pass Rate'', bar_value = JNum (Fin 45),
             bar_total = JNum (Fin 50), bar_percent = Fixed1 False 900,
             bar_width = Fin 90, bar_color = ''green''\<rparr>\<rparr>"
    unfolding shown' g' t50 ProgressBar_def
    by (simp add: wn w45 f90 del: toFixed1.simps(1))
  have headless: "CycleCard no_numeric_text headless_cycle =
     Inl (TypeError ''Cannot read properties of undefined or null (reading name)'')"
    by (simp add: CycleCard_def get_prop_def headless_cycle_def)
  from large far uncounted headless show ?thesis by blast
qed

text \<open>
  Claim C2, as amended. Whenever the total is \<open>0\<close> the percentage of a progress bar is
  \<open>0\<close> and the bar shows \<^verbatim>\<open>0.0\<close>, whatever the value: a cycle with \<^verbatim>\<open>total_tests\<close> \<open>0\<close>
  shows \<^verbatim>\<open>0.0\<close> for both rates, never NaN. The constants \<^verbatim>\<open>executionRate\<close> and
  \<^verbatim>\<open>passRate\<close> of the card are \<open>0\<close> when the cycle has no such field; they are not
  what the card shows.
\<close>

theorem zero_total_gives_zero_rates:
  "percentage c v (JNum (Fin 0)) = Fin 0 \<and>
   bar_percent (ProgressBar c l v (JNum (Fin 0)) col) = Fixed1 False 0 \<and>
   (js_get cycle ''total_tests'' = JNum (Fin 0) \<and> \<not> nullish (js_get cycle ''cycle'') \<longrightarrow>
      (\<exists>k. CycleCard c cycle = Inr k \<and>
         bar_percent (execution_bar k) = Fixed1 False 0 \<and> bar_width (execution_bar k) = Fin 0 \<and>
         bar_percent (pass_bar k) = Fixed1 False 0 \<and> bar_width (pass_bar k) = Fin 0)) \<and>
   (\<not> nullish cycle \<and> nullish (js_get cycle ''execution_rate'') \<longrightarrow>
      executionRate cycle = Inr (JNum (Fin 0))) \<and>
   (\<not> nullish cycle \<and> nullish (js_get cycle ''pass_rate'') \<longrightarrow>
      passRate cycle = Inr (JNum (Fin 0)))"
proof (intro conjI impI)
  show "percentage c v (JNum (Fin 0)) = Fin 0" by (rule percentage_zero_total)
  show "bar_percent (ProgressBar c l v (JNum (Fin 0)) col) = Fixed1 False 0"
    by (simp add: ProgressBar_def percentage_zero_total nearest_tenths_0)
next
  assume a: "js_get cycle ''total_tests'' = JNum (Fin 0) \<and> \<not> nullish (js_get cycle ''cycle'')"
  then have "\<not> nullish cycle" by (intro js_get_not_nullish [of cycle "''total_tests''"]) simp
  from CycleCard_present [OF this] a
  show "\<exists>k. CycleCard c cycle = Inr k \<and>
         bar_percent (execution_bar k) = Fixed1 False 0 \<and> bar_width (execution_bar k) = Fin 0 \<and>
         bar_percent (pass_bar k) = Fixed1 False 0 \<and> bar_width (pass_bar k) = Fin 0"
    by (simp add: ProgressBar_def percentage_zero_total nearest_tenths_0)
next
  assume "\<not> nullish cycle \<and> nullish (js_get cycle ''execution_rate'')"
  then show "executionRate cycle = Inr (JNum (Fin 0))"
    by (cases "js_get cycle ''execution_rate''") (simp_all add: executionRate_def get_prop_def js_or_def)
next
  assume "\<not> nullish cycle \<and> nullish (js_get cycle ''pass_rate'')"
  then show "passRate cycle = Inr (JNum (Fin 0))"
    by (cases "js_get cycle ''pass_rate''") (simp_all add: passRate_def get_prop_def js_or_def)
qed

theorem zero_total_gives_zero_rates_witness:
  "js_get empty_cycle ''total_tests'' = JNum (Fin 0) \<and>
   \<not> nullish (js_get empty_cycle ''cycle'') \<and>
   \<not> nullish empty_cycle \<and> nullish (js_get empty_cycle ''execution_rate'') \<and>
   nullish (js_get empty_cycle ''pass_rate'') \<and>
   (\<exists>k. CycleCard no_numeric_text empty_cycle = Inr k \<and>
      bar_percent (execution_bar k) = Fixed1 False 0 \<and> bar_width (execution_bar k) = Fin 0 \<and>
      bar_percent (pass_bar k) = Fixed1 False 0 \<and> bar_width (pass_bar k) = Fin 0) \<and>
   executionRate empty_cycle = Inr (JNum (Fin 0)) \<and>
   passRate empty_cycle = Inr (JNum (Fin 0))"
proof -
  have h: "js_get empty_cycle ''total_tests'' = JNum (Fin 0)"
    "\<not> nullish (js_get empty_cycle ''cycle'')"
    "\<not> nullish empty_cycle" "nullish (js_get empty_cycle ''execution_rate'')"
    "nullish (js_get empty_cycle ''pass_rate'')"
    by (simp_all add: empty_cycle_def)
  with zero_total_gives_zero_rates [of no_numeric_text JNull "[]" "[]" empty_cycle]
  show ?thesis by blast
qed

text \<open>
  Claim C2 as stated fails. The rates the card shows do not default to \<open>0\<close> when \<^verbatim>\<open>execution_rate\<close> and
  \<^verbatim>\<open>pass_rate\<close> are absent: they are computed from the counts, here \<^verbatim>\<open>98.0\<close> and
  \<^verbatim>\<open>90.0\<close>.
\<close>

theorem absent_rates_not_displayed_as_zero:
  "js_get smoke_cycle ''execution_rate'' = JUndefined \<and>
   js_get smoke_cycle ''pass_rate'' = JUndefined \<and>
   executionRate smoke_cycle = Inr (JNum (Fin 0)) \<and>
   passRate smoke_cycle = Inr (JNum (Fin 0)) \<and>
   CycleCard no_numeric_text smoke_cycle =
     Inr \<lparr>card_name = JStr ''Smoke Test'',
          card_description = JStr ''Basic functionality tests'',
          card_total = JNum (Fin 50), card_passed = JNum (Fin 45),
          card_failed = JNum (Fin 3), card_blocked = JNum (Fin 1),
          card_unexecuted = JNum (Fin 1),
          execution_bar =
            \<lparr>bar_label = ''Execution Progress'', bar_value = JNum (Fin 49),
             bar_total = JNum (Fin 50), bar_percent = Fixed1 False 980,
             bar_width = Fin 98, bar_color = ''blue''\<rparr>,
          pass_bar =
            \<lparr>bar_label = ''Pass Rate'', bar_value = JNum (Fin 45),
             bar_total = JNum (Fin 50), bar_percent = Fixed1 False 900,
             bar_width = Fin 90, bar_color = ''green''\<rparr>\<rparr>"
proof -
  have s: "num_sub (ToNumber no_numeric_text (JNum (Fin 50)))
             (ToNumber no_numeric_text (JNum (Fin 1))) = Fin 49"
    and w49: "percentage no_numeric_text (JNum (Fin 49)) (JNum (Fin 50)) = Fin 98"
    and w45: "percentage no_numeric_text (JNum (Fin 45)) (JNum (Fin 50)) = Fin 90"
    and f98: "toFixed1 (Fin 98) = Fixed1 False 980"
    and f90: "toFixed1 (Fin 90) = Fixed1 False 900"
    by code_simp+
  have "\<not> nullish smoke_cycle" and "\<not> nullish (js_get smoke_cycle ''cycle'')"
    by (simp_all add: smoke_cycle_def)
  note shown = CycleCard_present [OF this]
  have g: "js_get smoke_cycle ''total_tests'' = JNum (Fin 50)"
    "js_get smoke_cycle ''unexecuted'' = JNum (Fin 1)"
    "js_get smoke_cycle ''passed'' = JNum (Fin 45)"
    "js_get smoke_cycle ''failed'' = JNum (Fin 3)"
    "js_get smoke_cycle ''blocked'' = JNum (Fin 1)"
    "js_get (js_get smoke_cycle ''cycle'') ''name'' = JStr ''Smoke Test''"
    "js_get (js_get smoke_cycle ''cycle'') ''description'' = JStr ''Basic functionality tests''"
    by (simp_all add: smoke_cycle_def)
  have rendered: "CycleCard no_numeric_text smoke_cycle =
     Inr \<lparr>card_name = JStr ''Smoke Test'',
          card_description = JStr ''Basic functionality tests'',
          card_total = JNum (Fin 50), card_passed = JNum (Fin 45),
          card_failed = JNum (Fin 3), card_blocked = JNum (Fin 1),
          card_unexecuted = JNum (Fin 1),
          execution_bar =
            \<lparr>bar_label = ''Execution Progress'', bar_value = JNum (Fin 49),
             bar_total = JNum (Fin 50), bar_percent = Fixed1 False 980,
             bar_width = Fin 98, bar_color = ''blue''\<rparr>,
          pass_bar =
            \<lparr>bar_label = ''Pass Rate'', bar_value = JNum (Fin 45),
             bar_total = JNum (Fin 50), bar_percent = Fixed1 False 900,
             bar_width = Fin 90, bar_color = ''green''\<rparr>\<rparr>"
    unfolding shown g s ProgressBar_def w49 w45 f98 f90 by simp
  have "js_get smoke_cycle ''execution_rate'' = JUndefined"
    and "js_get smoke_cycle ''pass_rate'' = JUndefined"
    and "executionRate smoke_cycle = Inr (JNum (Fin 0))"
    and "passRate smoke_cycle = Inr (JNum (Fin 0))"
    by (simp_all add: smoke_cycle_def executionRate_def passRate_def get_prop_def js_or_def)
  with rendered show ?thesis by blast
qed

section \<open>Properties of the composite load\<close>

lemma first_rejected_None_iff:
  "first_rejected ps = None \<longleftrightarrow> (\<forall>p \<in> set ps. \<not> isl (snd p))"
proof (induction ps rule: first_rejected.induct)
  case 1
  then show ?case by simp
next
  case (2 t v ps)
  then show ?case by simp
next
  case (3 t e ps)
  then show ?case by (simp split: option.splits)
qed

lemma first_rejected_mem:
  "first_rejected ps = Some (t, e) \<Longrightarrow> (t, Inl e) \<in> set ps"
proof (induction ps arbitrary: t e rule: first_rejected.induct)
  case 1
  then show ?case by simp
next
  case (2 t' v ps)
  then show ?case by simp
next
  case (3 t' e' ps)
  then show ?case by (auto split: option.splits if_splits)
qed

lemma fulfilled_values_all:
  "map snd ps = map Inr vs \<Longrightarrow> fulfilled_values ps = vs \<and> first_rejected ps = None"
proof (induction ps arbitrary: vs rule: fulfilled_values.induct)
  case 1
  then show ?case by simp
next
  case (2 t v ps)
  then show ?case by (cases vs) auto
next
  case (3 t e ps)
  then show ?case by (cases vs) auto
qed

lemma loadDashboard_rejected:
  assumes "first_rejected (dashboard_calls f j s) = Some (t, e)"
  shows "loadDashboard f j s =
           s\<lparr>loading := False, error := JStr (''Failed to load dashboard: '' @ message e)\<rparr>"
  using assms by (simp add: loadDashboard_def Promise_all_def)

lemma loadDashboard_fulfilled:
  assumes "first_rejected (dashboard_calls f j s) = None"
  shows "loadDashboard f j s =
           s\<lparr>loading := False, error := JStr [],
             dashboardData :=
               Some \<lparr>report = element (fulfilled_values (dashboard_calls f j s)) 0,
                     progress = element (fulfilled_values (dashboard_calls f j s)) 1,
                     regressionTests = element (fulfilled_values (dashboard_calls f j s)) 2,
                     negativeTests = element (fulfilled_values (dashboard_calls f j s)) 3\<rparr>\<rparr>"
  using assms by (simp add: loadDashboard_def Promise_all_def)

lemma loadDashboard_values:
  assumes "map snd (dashboard_calls f j s) = [Inr a, Inr b, Inr r, Inr n]"
  shows "loadDashboard f j s =
           s\<lparr>loading := False, error := JStr [],
             dashboardData :=
               Some \<lparr>report = a, progress = b, regressionTests = r, negativeTests = n\<rparr>\<rparr>"
proof -
  from assms have "map snd (dashboard_calls f j s) = map Inr [a, b, r, n]" by simp
  then have "fulfilled_values (dashboard_calls f j s) = [a, b, r, n]"
    and "first_rejected (dashboard_calls f j s) = None"
    using fulfilled_values_all by blast+
  then show ?thesis by (simp add: loadDashboard_fulfilled element_def)
qed

lemma loadDashboard_rejection:
  assumes "\<exists>p \<in> set (dashboard_calls f j s). isl (snd p)"
  shows "isl (snd (Promise_all (dashboard_calls f j s))) \<and>
         dashboardData (loadDashboard f j s) = dashboardData s \<and>
         error_banner (loadDashboard f j s) \<noteq> None"
proof -
  from assms have "first_rejected (dashboard_calls f j s) \<noteq> None"
    by (simp add: first_rejected_None_iff)
  then obtain t e where fr: "first_rejected (dashboard_calls f j s) = Some (t, e)"
    by (cases "first_rejected (dashboard_calls f j s)") auto
  then show ?thesis
    by (simp add: loadDashboard_rejected Promise_all_def error_banner_def)
qed

lemma upstream_error_calls:
  "map snd (dashboard_calls upstream_error_server sample_parse selected_state) =
     [sample_parse (JStr ''UPSTREAM_ERROR''), sample_parse (JStr ''PROGRESS''),
      sample_parse (JStr ''REGRESSION''), sample_parse (JStr ''NEGATIVE'')]"
  by (simp add: dashboard_calls_def callTool_def upstream_error_server_def sample_server_def
      envelope_def get_prop_def)

text \<open>
  Claim C1 at the input where the remote service answers \<^verbatim>\<open>generate_test_report\<close> with
  an error field and the other three calls normally. None of the four promises is
  rejected, so the composite load does not fail: the dashboard data, empty before,
  is set to a report that holds only the error beside the three good results, and
  the cards show zeros beside the two counts that arrived.
\<close>

theorem loadDashboard_upstream_error_partial_report:
  "map isl (map snd (dashboard_calls upstream_error_server sample_parse selected_state)) =
     [False, False, False, False] \<and>
   dashboardData selected_state = None \<and>
   dashboardData (loadDashboard upstream_error_server sample_parse selected_state) =
     Some \<lparr>report = JObj [(''error'', JStr ''Version not found'')],
           progress = JObj [(''project_id'', JStr ''10001''), (''version_id'', JStr ''10100''),
                            (''progress'', JArr [smoke_cycle])],
           regressionTests =
             JObj [(''project_id'', JStr ''10001''), (''version_id'', JStr ''10100''),
                   (''total_regression_tests'', JNum (Fin 125))],
           negativeTests =
             JObj [(''project_id'', JStr ''10001''), (''version_id'', JStr ''10100''),
                   (''negative_test_count'', JNum (Fin 35)),
                   (''total_tests'', JNum (Fin 450))]\<rparr> \<and>
   KeyMetrics (the (dashboardData
       (loadDashboard upstream_error_server sample_parse selected_state))) =
     Inr \<lparr>total_tests = JNum (Fin 0), execution_rate = Fixed1 False 0,
          pass_rate = Fixed1 False 0, open_defects = JNum (Fin 0),
          regression_tests = JNum (Fin 125), negative_tests = JNum (Fin 35),
          test_cycles = JNum (Fin 0)\<rparr>"
proof -
  have h: "map snd (dashboard_calls upstream_error_server sample_parse selected_state) =
     [Inr (JObj [(''error'', JStr ''Version not found'')]),
      Inr (JObj [(''project_id'', JStr ''10001''), (''version_id'', JStr ''10100''),
                 (''progress'', JArr [smoke_cycle])]),
      Inr (JObj [(''project_id'', JStr ''10001''), (''version_id'', JStr ''10100''),
                 (''total_regression_tests'', JNum (Fin 125))]),
      Inr (JObj [(''project_id'', JStr ''10001''), (''version_id'', JStr ''10100''),
                 (''negative_test_count'', JNum (Fin 35)),
                 (''total_tests'', JNum (Fin 450))])]"
    unfolding upstream_error_calls by (simp add: sample_parse_def)
  have c125: "canon (Fin 125) = Fin 125" and c35: "canon (Fin 35) = Fin 35"
    by code_simp+
  have none: "map isl (map snd (dashboard_calls upstream_error_server sample_parse selected_state)) =
     [False, False, False, False]"
    unfolding h by simp
  have before: "dashboardData selected_state = None"
    by (simp add: selected_state_def initial_state_def)
  have stored: "dashboardData (loadDashboard upstream_error_server sample_parse selected_state) =
     Some \<lparr>report = JObj [(''error'', JStr ''Version not found'')],
           progress = JObj [(''project_id'', JStr ''10001''), (''version_id'', JStr ''10100''),
                            (''progress'', JArr [smoke_cycle])],
           regressionTests =
             JObj [(''project_id'', JStr ''10001''), (''version_id'', JStr ''10100''),
                   (''total_regression_tests'', JNum (Fin 125))],
           negativeTests =
             JObj [(''project_id'', JStr ''10001''), (''version_id'', JStr ''10100''),
                   (''negative_test_count'', JNum (Fin 35)),
                   (''total_tests'', JNum (Fin 450))]\<rparr>"
    unfolding loadDashboard_values [OF h] by simp
  have shown: "KeyMetrics (the (dashboardData
       (loadDashboard upstream_error_server sample_parse selected_state))) =
     Inr \<lparr>total_tests = JNum (Fin 0), execution_rate = Fixed1 False 0,
          pass_rate = Fixed1 False 0, open_defects = JNum (Fin 0),
          regression_tests = JNum (Fin 125), negative_tests = JNum (Fin 35),
          test_cycles = JNum (Fin 0)\<rparr>"
    unfolding stored
    by (simp add: KeyMetrics_def get_prop_def opt_prop_def js_or_def canon_zero c125 c35
        nearest_tenths_0 del: canon.simps)
  from none before stored shown show ?thesis by blast
qed

text \<open>
  Claim C9. When a call of \<^verbatim>\<open>loadDashboard\<close> is rejected, the state after the load is
  the state before it with \<^verbatim>\<open>loading\<close> false and \<^verbatim>\<open>error\<close> the message of one of the
  rejections: the dashboard data, and every other field, is unchanged.
\<close>

theorem loadDashboard_failure_frame:
  assumes "\<exists>p \<in> set (dashboard_calls f j s). isl (snd p)"
  shows "\<exists>t e. (t, Inl e) \<in> set (dashboard_calls f j s) \<and>
           loadDashboard f j s =
             s\<lparr>loading := False, error := JStr (''Failed to load dashboard: '' @ message e)\<rparr>"
proof -
  from assms have "first_rejected (dashboard_calls f j s) \<noteq> None"
    by (simp add: first_rejected_None_iff)
  then obtain t e where fr: "first_rejected (dashboard_calls f j s) = Some (t, e)"
    by (cases "first_rejected (dashboard_calls f j s)") auto
  from first_rejected_mem [OF fr] loadDashboard_rejected [OF fr] show ?thesis by blast
qed

theorem loadDashboard_failure_frame_witness:
  "(\<exists>p \<in> set (dashboard_calls failing_server sample_parse selected_state). isl (snd p)) \<and>
   (\<exists>t e. (t, Inl e) \<in> set (dashboard_calls failing_server sample_parse selected_state) \<and>
      loadDashboard failing_server sample_parse selected_state =
        selected_state\<lparr>loading := False,
                         error := JStr (''Failed to load dashboard: '' @ message e)\<rparr>)"
proof -
  have h: "\<exists>p \<in> set (dashboard_calls failing_server sample_parse selected_state). isl (snd p)"
    by (simp add: dashboard_calls_def callTool_def failing_server_def)
  from h loadDashboard_failure_frame [OF h] show ?thesis by blast
qed

section \<open>Properties of the tool client\<close>

lemma callTool_transport_failure:
  "snd (fetch_json \<lparr>rpc_method = ''tools/call'', name = toolName, arguments = args\<rparr>) = Inl e \<Longrightarrow>
   snd (callTool fetch_json JSON_parse toolName args) = Inl e"
  by (simp add: callTool_def Let_def)




section \<open>Loading the versions\<close>

text \<open>
  Claim C7. When the release-status result carries no error and its \<^verbatim>\<open>releases\<close> are
  absent, \<^verbatim>\<open>null\<close> or an empty array, \<^verbatim>\<open>loadVersions\<close> sets the version list to the
  empty array and changes nothing else: no error is raised and the error state is
  not set.
\<close>

theorem loadVersions_no_versions:
  assumes "snd (callTool fetch_json JSON_parse ''get_release_status''
                  [(''project_id'', JStr projectId)]) = Inr result"
    and "\<not> nullish result"
    and "\<not> truthy (js_get result ''error'')"
    and "nullish (js_get result ''releases'') \<or> js_get result ''releases'' = JArr []"
  shows "loadVersions fetch_json JSON_parse projectId s = s\<lparr>versions := JArr []\<rparr>"
proof -
  from assms(4) have "releases_map (js_get result ''releases'') = Inr JUndefined \<or>
      releases_map (js_get result ''releases'') = Inr (JArr [])"
    by (cases "js_get result ''releases''") auto
  then have "(case releases_map (js_get result ''releases'') of
                Inl err \<Rightarrow> s\<lparr>error := JStr (''Failed to load versions: '' @ message err)\<rparr>
              | Inr vs \<Rightarrow> s\<lparr>versions := js_or vs (JArr [])\<rparr>) = s\<lparr>versions := JArr []\<rparr>"
    by (auto simp add: js_or_def)
  with assms(1-3) show ?thesis by (simp add: loadVersions_def get_prop_def)
qed

theorem loadVersions_no_versions_witness:
  "snd (callTool sample_server sample_parse ''get_release_status''
          [(''project_id'', JStr ''10001'')]) =
     Inr (JObj [(''project_id'', JStr ''10001''), (''releases'', JArr [])]) \<and>
   loadVersions sample_server sample_parse ''10001'' selected_state =
     selected_state\<lparr>versions := JArr []\<rparr>"
proof -
  let ?result = "JObj [(''project_id'', JStr ''10001''), (''releases'', JArr [])]"
  have h1: "snd (callTool sample_server sample_parse ''get_release_status''
          [(''project_id'', JStr ''10001'')]) = Inr ?result"
    by (simp add: callTool_def sample_server_def envelope_def sample_parse_def get_prop_def)
  have h2: "\<not> nullish ?result" and h3: "\<not> truthy (js_get ?result ''error'')"
    and h4: "nullish (js_get ?result ''releases'') \<or> js_get ?result ''releases'' = JArr []"
    by simp_all
  from loadVersions_no_versions [OF h1 h2 h3 h4] h1 show ?thesis by simp
qed

section \<open>Properties of the key metrics\<close>

lemma js_or_zero_nullish: "nullish v \<Longrightarrow> js_or v (JNum (Fin 0)) = JNum (Fin 0)"
  by (cases v) (simp_all add: js_or_def)

lemma js_or_zero_defined:
  "js_or v (JNum (Fin 0)) \<noteq> JUndefined \<and> js_or v (JNum (Fin 0)) \<noteq> JNull \<and>
   js_or v (JNum (Fin 0)) \<noteq> JNum NaN"
  by (auto simp add: js_or_def)

lemma js_or_zero_number:
  "\<exists>m. js_or (JNum n) (JNum (Fin 0)) = JNum m \<and> m \<noteq> NaN"
  by (cases n) (auto simp add: js_or_def)

lemma toFixed_call_rate:
  assumes "nullish v \<or> (\<exists>n. v = JNum n)"
  shows "\<exists>m. toFixed_call (js_or v (JNum (Fin 0))) = Inr (toFixed1 m) \<and> m \<noteq> NaN \<and>
           (nullish v \<longrightarrow> m = Fin 0)"
proof -
  from assms consider "nullish v" | n where "v = JNum n" by blast
  then show ?thesis
  proof cases
    case 1
    then have "toFixed_call (js_or v (JNum (Fin 0))) = Inr (toFixed1 (Fin 0))"
      by (simp add: js_or_zero_nullish canon_zero del: canon.simps toFixed1.simps)
    then show ?thesis by (intro exI [of _ "Fin 0"]) simp
  next
    case 2
    show ?thesis
    proof (cases "truthy (JNum n)")
      case True
      then have nn: "canon n \<noteq> NaN" by auto
      from True 2 have "toFixed_call (js_or v (JNum (Fin 0))) = Inr (toFixed1 (canon n))"
        by (simp add: js_or_def del: truthy.simps)
      with nn 2 show ?thesis by (intro exI [of _ "canon n"]) simp
    next
      case False
      with 2 have "toFixed_call (js_or v (JNum (Fin 0))) = Inr (toFixed1 (Fin 0))"
        by (simp add: js_or_def canon_zero del: truthy.simps canon.simps toFixed1.simps)
      with 2 show ?thesis by (intro exI [of _ "Fin 0"]) simp
    qed
  qed
qed

lemma toFixed1_not_NaN: "m \<noteq> NaN \<Longrightarrow> toFixed1 m \<noteq> Plain NaN"
  by (cases m) simp_all

lemma KeyMetrics_present:
  assumes "\<not> nullish (report d)"
    and "toFixed_call (js_or (opt_prop (js_get (report d) ''overall_metrics'') ''execution_rate'')
           (JNum (Fin 0))) = Inr er"
    and "toFixed_call (js_or (opt_prop (js_get (report d) ''overall_metrics'') ''pass_rate'')
           (JNum (Fin 0))) = Inr pr"
  shows "KeyMetrics d =
     Inr \<lparr>total_tests =
            js_or (opt_prop (js_get (report d) ''overall_metrics'') ''total_tests'') (JNum (Fin 0)),
          execution_rate = er,
          pass_rate = pr,
          open_defects =
            js_or (opt_prop (js_get (report d) ''defect_summary'') ''openDefects'') (JNum (Fin 0)),
          regression_tests =
            js_or (opt_prop (regressionTests d) ''total_regression_tests'') (JNum (Fin 0)),
          negative_tests =
            js_or (opt_prop (negativeTests d) ''negative_test_count'') (JNum (Fin 0)),
          test_cycles =
            js_or (opt_prop (js_get (report d) ''cycle_breakdown'') ''length'') (JNum (Fin 0))\<rparr>"
  using assms by (simp add: KeyMetrics_def get_prop_def)

text \<open>
  Claim C10, as amended. For a report that is not \<^verbatim>\<open>null\<close> and whose two rates are
  each a number or missing, the seven metric cards are rendered, each of them shows
  \<open>0\<close> (\<^verbatim>\<open>0.0\<close> for a rate) when its field is missing, \<^verbatim>\<open>null\<close> or \<^verbatim>\<open>undefined\<close>, none
  of them shows \<^verbatim>\<open>undefined\<close>, \<^verbatim>\<open>null\<close> or NaN, and a field that is a number is shown
  as a number.
\<close>

theorem KeyMetrics_defaults:
  assumes "\<not> nullish (report d)"
    and "nullish (opt_prop (js_get (report d) ''overall_metrics'') ''execution_rate'') \<or>
         (\<exists>n. opt_prop (js_get (report d) ''overall_metrics'') ''execution_rate'' = JNum n)"
    and "nullish (opt_prop (js_get (report d) ''overall_metrics'') ''pass_rate'') \<or>
         (\<exists>n. opt_prop (js_get (report d) ''overall_metrics'') ''pass_rate'' = JNum n)"
  shows "\<exists>k. KeyMetrics d = Inr k \<and>
     (nullish (opt_prop (js_get (report d) ''overall_metrics'') ''total_tests'') \<longrightarrow>
        total_tests k = JNum (Fin 0)) \<and>
     (nullish (opt_prop (js_get (report d) ''overall_metrics'') ''execution_rate'') \<longrightarrow>
        execution_rate k = Fixed1 False 0) \<and>
     (nullish (opt_prop (js_get (report d) ''overall_metrics'') ''pass_rate'') \<longrightarrow>
        pass_rate k = Fixed1 False 0) \<and>
     (nullish (opt_prop (js_get (report d) ''defect_summary'') ''openDefects'') \<longrightarrow>
        open_defects k = JNum (Fin 0)) \<and>
     (nullish (opt_prop (regressionTests d) ''total_regression_tests'') \<longrightarrow>
        regression_tests k = JNum (Fin 0)) \<and>
     (nullish (opt_prop (negativeTests d) ''negative_test_count'') \<longrightarrow>
        negative_tests k = JNum (Fin 0)) \<and>
     (nullish (opt_prop (js_get (report d) ''cycle_breakdown'') ''length'') \<longrightarrow>
        test_cycles k = JNum (Fin 0)) \<and>
     (\<forall>v \<in> {total_tests k, open_defects k, regression_tests k, negative_tests k, test_cycles k}.
        v \<noteq> JUndefined \<and> v \<noteq> JNull \<and> v \<noteq> JNum NaN) \<and>
     execution_rate k \<noteq> Plain NaN \<and> pass_rate k \<noteq> Plain NaN \<and>
     (\<forall>n. opt_prop (js_get (report d) ''overall_metrics'') ''total_tests'' = JNum n \<longrightarrow>
        (\<exists>m. total_tests k = JNum m \<and> m \<noteq> NaN)) \<and>
     (\<forall>n. opt_prop (js_get (report d) ''defect_summary'') ''openDefects'' = JNum n \<longrightarrow>
        (\<exists>m. open_defects k = JNum m \<and> m \<noteq> NaN)) \<and>
     (\<forall>n. opt_prop (regressionTests d) ''total_regression_tests'' = JNum n \<longrightarrow>
        (\<exists>m. regression_tests k = JNum m \<and> m \<noteq> NaN)) \<and>
     (\<forall>n. opt_prop (negativeTests d) ''negative_test_count'' = JNum n \<longrightarrow>
        (\<exists>m. negative_tests k = JNum m \<and> m \<noteq> NaN)) \<and>
     (\<forall>n. opt_prop (js_get (report d) ''cycle_breakdown'') ''length'' = JNum n \<longrightarrow>
        (\<exists>m. test_cycles k = JNum m \<and> m \<noteq> NaN))"
proof -
  obtain m1 where m1: "toFixed_call (js_or (opt_prop (js_get (report d) ''overall_metrics'')
      ''execution_rate'') (JNum (Fin 0))) = Inr (toFixed1 m1)" "m1 \<noteq> NaN"
    "nullish (opt_prop (js_get (report d) ''overall_metrics'') ''execution_rate'') \<longrightarrow> m1 = Fin 0"
    using toFixed_call_rate [OF assms(2)] by blast
  obtain m2 where m2: "toFixed_call (js_or (opt_prop (js_get (report d) ''overall_metrics'')
      ''pass_rate'') (JNum (Fin 0))) = Inr (toFixed1 m2)" "m2 \<noteq> NaN"
    "nullish (opt_prop (js_get (report d) ''overall_metrics'') ''pass_rate'') \<longrightarrow> m2 = Fin 0"
    using toFixed_call_rate [OF assms(3)] by blast
  have z: "toFixed1 (Fin 0) = Fixed1 False 0" by (simp add: nearest_tenths_0)
  from m1(2) m2(2) have nn: "toFixed1 m1 \<noteq> Plain NaN" "toFixed1 m2 \<noteq> Plain NaN"
    by (simp_all add: toFixed1_not_NaN)
  show ?thesis
    unfolding KeyMetrics_present [OF assms(1) m1(1) m2(1)]
    using m1(3) m2(3) z nn js_or_zero_defined js_or_zero_number
    by (auto simp add: js_or_zero_nullish simp del: toFixed1.simps)
qed

theorem KeyMetrics_defaults_witness:
  "KeyMetrics \<lparr>report = JObj [(''error'', JStr ''Version not found'')], progress = JNull,
               regressionTests = JNull, negativeTests = JObj []\<rparr> =
     Inr \<lparr>total_tests = JNum (Fin 0), execution_rate = Fixed1 False 0,
          pass_rate = Fixed1 False 0, open_defects = JNum (Fin 0),
          regression_tests = JNum (Fin 0), negative_tests = JNum (Fin 0),
          test_cycles = JNum (Fin 0)\<rparr>"
proof -
  let ?d = "\<lparr>report = JObj [(''error'', JStr ''Version not found'')], progress = JNull,
               regressionTests = JNull, negativeTests = JObj []\<rparr>"
  have h1: "\<not> nullish (report ?d)" by simp
  have h2: "nullish (opt_prop (js_get (report ?d) ''overall_metrics'') ''execution_rate'') \<or>
         (\<exists>n. opt_prop (js_get (report ?d) ''overall_metrics'') ''execution_rate'' = JNum n)"
    and h3: "nullish (opt_prop (js_get (report ?d) ''overall_metrics'') ''pass_rate'') \<or>
         (\<exists>n. opt_prop (js_get (report ?d) ''overall_metrics'') ''pass_rate'' = JNum n)"
    by (simp_all add: opt_prop_def)
  from KeyMetrics_defaults [OF h1 h2 h3] obtain k where k: "KeyMetrics ?d = Inr k"
    "total_tests k = JNum (Fin 0)" "execution_rate k = Fixed1 False 0"
    "pass_rate k = Fixed1 False 0" "open_defects k = JNum (Fin 0)"
    "regression_tests k = JNum (Fin 0)" "negative_tests k = JNum (Fin 0)"
    "test_cycles k = JNum (Fin 0)"
    by (auto simp add: opt_prop_def)
  then show ?thesis by (cases k) simp
qed

text \<open>
  Claim C10 as stated fails. A total that arrives as a string is shown as that
  string, not as a number, and a rate that arrives as a string makes the rendering
  throw, although the total beside it is missing.
\<close>

theorem metric_not_always_a_number:
  "KeyMetrics \<lparr>report = JObj [(''overall_metrics'', JObj [(''total_tests'', JStr ''450'')])],
               progress = JNull, regressionTests = JNull, negativeTests = JNull\<rparr> =
     Inr \<lparr>total_tests = JStr ''450'', execution_rate = Fixed1 False 0,
          pass_rate = Fixed1 False 0, open_defects = JNum (Fin 0),
          regression_tests = JNum (Fin 0), negative_tests = JNum (Fin 0),
          test_cycles = JNum (Fin 0)\<rparr> \<and>
   KeyMetrics \<lparr>report = JObj [(''overall_metrics'', JObj [(''execution_rate'', JStr ''84.4'')])],
               progress = JNull, regressionTests = JNull, negativeTests = JNull\<rparr> =
     Inl (TypeError ''toFixed is not a function'')"
  by (simp add: KeyMetrics_def get_prop_def opt_prop_def js_or_def canon_zero
      nearest_tenths_0 del: canon.simps)

text \<open>
  The report is the one result the cards read without \<^verbatim>\<open>?.\<close>: when the report itself
  is \<^verbatim>\<open>null\<close> the rendering throws.
\<close>

lemma KeyMetrics_null_report:
  "KeyMetrics \<lparr>report = JNull, progress = p, regressionTests = r, negativeTests = n\<rparr> =
     Inl (TypeError ''Cannot read properties of undefined or null (reading overall_metrics)'')"
  by (simp add: KeyMetrics_def get_prop_def)

section \<open>What the stored dashboard data holds\<close>

lemma cards_nth:
  "cards c xs = Inr ks \<Longrightarrow>
   length ks = length xs \<and> (\<forall>i < length xs. CycleCard c (xs ! i) = Inr (ks ! i))"
proof (induction xs arbitrary: ks)
  case Nil
  then show ?case by simp
next
  case (Cons x xs)
  from Cons.prems obtain k ks' where k: "CycleCard c x = Inr k" "cards c xs = Inr ks'" "ks = k # ks'"
    by (auto split: sum.splits)
  from Cons.IH [OF k(2)] k show ?case by (auto simp add: nth_Cons split: nat.splits)
qed

lemma sample_calls:
  "map snd (dashboard_calls sample_server sample_parse selected_state) =
     [sample_parse (JStr ''REPORT''), sample_parse (JStr ''PROGRESS''),
      sample_parse (JStr ''REGRESSION''), sample_parse (JStr ''NEGATIVE'')]"
  by (simp add: dashboard_calls_def callTool_def sample_server_def envelope_def get_prop_def)

text \<open>
  Claim C4, as amended. When the four calls are fulfilled, the stored dashboard data
  holds the four results side by side and unchanged: \<^verbatim>\<open>report\<close> from
  \<^verbatim>\<open>generate_test_report\<close>, \<^verbatim>\<open>progress\<close> from \<^verbatim>\<open>get_execution_progress\<close>,
  \<^verbatim>\<open>regressionTests\<close> and \<^verbatim>\<open>negativeTests\<close> from the two counts. The cards then read
  the total from \<^verbatim>\<open>report.overall_metrics.total_tests\<close>, the regression and negative
  counts from \<^verbatim>\<open>regressionTests\<close> and \<^verbatim>\<open>negativeTests\<close>, the number of cycles from
  \<^verbatim>\<open>report.cycle_breakdown\<close>, and the cycle details, one card for each element in
  order, from the array \<^verbatim>\<open>progress.progress\<close>.
\<close>

theorem dashboard_data_side_by_side:
  assumes "map snd (dashboard_calls f j s) = [Inr a, Inr b, Inr r, Inr n]"
  shows "dashboardData (loadDashboard f j s) =
           Some \<lparr>report = a, progress = b, regressionTests = r, negativeTests = n\<rparr> \<and>
         (\<forall>k. KeyMetrics \<lparr>report = a, progress = b, regressionTests = r, negativeTests = n\<rparr> = Inr k \<longrightarrow>
            total_tests k =
              js_or (opt_prop (js_get a ''overall_metrics'') ''total_tests'') (JNum (Fin 0)) \<and>
            regression_tests k = js_or (opt_prop r ''total_regression_tests'') (JNum (Fin 0)) \<and>
            negative_tests k = js_or (opt_prop n ''negative_test_count'') (JNum (Fin 0)) \<and>
            test_cycles k =
              js_or (opt_prop (js_get a ''cycle_breakdown'') ''length'') (JNum (Fin 0))) \<and>
         (\<forall>xs ks. opt_prop b ''progress'' = JArr xs \<and>
            CycleDetails c \<lparr>report = a, progress = b, regressionTests = r, negativeTests = n\<rparr> =
              Inr ks \<longrightarrow>
            length ks = length xs \<and> (\<forall>i < length xs. CycleCard c (xs ! i) = Inr (ks ! i)))"
proof -
  let ?d = "\<lparr>report = a, progress = b, regressionTests = r, negativeTests = n\<rparr>"
  have stored: "dashboardData (loadDashboard f j s) = Some ?d"
    by (simp add: loadDashboard_values [OF assms])
  have metrics: "total_tests k =
              js_or (opt_prop (js_get a ''overall_metrics'') ''total_tests'') (JNum (Fin 0)) \<and>
            regression_tests k = js_or (opt_prop r ''total_regression_tests'') (JNum (Fin 0)) \<and>
            negative_tests k = js_or (opt_prop n ''negative_test_count'') (JNum (Fin 0)) \<and>
            test_cycles k =
              js_or (opt_prop (js_get a ''cycle_breakdown'') ''length'') (JNum (Fin 0))"
    if "KeyMetrics ?d = Inr k" for k
    using that by (auto simp add: KeyMetrics_def get_prop_def split: sum.splits if_splits)
  have details: "length ks = length xs \<and> (\<forall>i < length xs. CycleCard c (xs ! i) = Inr (ks ! i))"
    if "opt_prop b ''progress'' = JArr xs \<and> CycleDetails c ?d = Inr ks" for xs ks
  proof -
    from that have "cards c xs = Inr ks" by (auto simp add: CycleDetails_def)
    then show ?thesis by (rule cards_nth)
  qed
  from stored metrics details show ?thesis by blast
qed

theorem dashboard_data_side_by_side_witness:
  "map snd (dashboard_calls sample_server sample_parse selected_state) =
     [sample_parse (JStr ''REPORT''), sample_parse (JStr ''PROGRESS''),
      sample_parse (JStr ''REGRESSION''), sample_parse (JStr ''NEGATIVE'')] \<and>
   dashboardData (loadDashboard sample_server sample_parse selected_state) =
     Some \<lparr>report = projr (sample_parse (JStr ''REPORT'')),
           progress = projr (sample_parse (JStr ''PROGRESS'')),
           regressionTests = projr (sample_parse (JStr ''REGRESSION'')),
           negativeTests = projr (sample_parse (JStr ''NEGATIVE''))\<rparr>"
proof -
  have h: "map snd (dashboard_calls sample_server sample_parse selected_state) =
     [Inr (projr (sample_parse (JStr ''REPORT''))), Inr (projr (sample_parse (JStr ''PROGRESS''))),
      Inr (projr (sample_parse (JStr ''REGRESSION''))),
      Inr (projr (sample_parse (JStr ''NEGATIVE'')))]"
    unfolding sample_calls by (simp add: sample_parse_def)
  from dashboard_data_side_by_side [OF h, of no_numeric_text] sample_calls
  show ?thesis by blast
qed

text \<open>
  Claim C4 as stated fails: after a load from the sample server, the stored
  \<^verbatim>\<open>report.overall_metrics\<close> has no \<^verbatim>\<open>regression_test_count\<close> and no
  \<^verbatim>\<open>negative_test_count\<close> although the two counts arrived (125 and 35), and
  \<^verbatim>\<open>report.cycle_breakdown\<close> is not the array of the progress call.
\<close>

theorem counts_not_copied_into_report:
  "opt_prop (js_get (report (the (dashboardData
      (loadDashboard sample_server sample_parse selected_state)))) ''overall_metrics'')
      ''regression_test_count'' = JUndefined \<and>
   opt_prop (regressionTests (the (dashboardData
      (loadDashboard sample_server sample_parse selected_state)))) ''total_regression_tests'' =
      JNum (Fin 125) \<and>
   opt_prop (js_get (report (the (dashboardData
      (loadDashboard sample_server sample_parse selected_state)))) ''overall_metrics'')
      ''negative_test_count'' = JUndefined \<and>
   opt_prop (negativeTests (the (dashboardData
      (loadDashboard sample_server sample_parse selected_state)))) ''negative_test_count'' =
      JNum (Fin 35) \<and>
   js_get (report (the (dashboardData
      (loadDashboard sample_server sample_parse selected_state)))) ''cycle_breakdown'' =
      JUndefined \<and>
   opt_prop (progress (the (dashboardData
      (loadDashboard sample_server sample_parse selected_state)))) ''progress'' =
      JArr [smoke_cycle]"
proof -
  have h: "map snd (dashboard_calls sample_server sample_parse selected_state) =
     [Inr (projr (sample_parse (JStr ''REPORT''))), Inr (projr (sample_parse (JStr ''PROGRESS''))),
      Inr (projr (sample_parse (JStr ''REGRESSION''))),
      Inr (projr (sample_parse (JStr ''NEGATIVE'')))]"
    unfolding sample_calls by (simp add: sample_parse_def)
  show ?thesis
    unfolding loadDashboard_values [OF h]
    by (simp add: sample_parse_def opt_prop_def)
qed

section \<open>How failures reach the error banner\<close>

lemma loadProjects_rejected:
  "snd (callTool f j ''get_projects'' []) = Inl e \<Longrightarrow>
   loadProjects f j s = s\<lparr>error := JStr (''Failed to load projects: '' @ message e)\<rparr>"
  by (simp add: loadProjects_def)

lemma loadProjects_error_field:
  "snd (callTool f j ''get_projects'' []) = Inr result \<Longrightarrow> truthy (js_get result ''error'') \<Longrightarrow>
   loadProjects f j s = s\<lparr>error := js_get result ''error''\<rparr>"
  by (cases result) (simp_all add: loadProjects_def get_prop_def)

lemma loadVersions_rejected:
  "snd (callTool f j ''get_release_status'' [(''project_id'', JStr projectId)]) = Inl e \<Longrightarrow>
   loadVersions f j projectId s =
     s\<lparr>error := JStr (''Failed to load versions: '' @ message e)\<rparr>"
  by (simp add: loadVersions_def)

lemma loadVersions_error_field:
  "snd (callTool f j ''get_release_status'' [(''project_id'', JStr projectId)]) = Inr result \<Longrightarrow>
   truthy (js_get result ''error'') \<Longrightarrow>
   loadVersions f j projectId s = s\<lparr>error := js_get result ''error''\<rparr>"
  by (cases result) (simp_all add: loadVersions_def get_prop_def)

lemma refreshDashboard_enabled:
  "\<not> refresh_disabled s \<Longrightarrow> refreshDashboard f j s = loadDashboard f j s"
  by (simp add: refresh_disabled_def refreshDashboard_def)

text \<open>
  Claim C8 at the input where the remote service answers \<^verbatim>\<open>generate_test_report\<close> with
  an error field: \<^verbatim>\<open>loadDashboard\<close> stores the answer as the report and shows no error
  message, where \<^verbatim>\<open>loadVersions\<close> shows the error of the same answer.
\<close>

theorem loadDashboard_upstream_error_not_surfaced:
  "loadDashboard upstream_error_server sample_parse selected_state =
     selected_state\<lparr>dashboardData :=
       Some \<lparr>report = JObj [(''error'', JStr ''Version not found'')],
             progress = projr (sample_parse (JStr ''PROGRESS'')),
             regressionTests = projr (sample_parse (JStr ''REGRESSION'')),
             negativeTests = projr (sample_parse (JStr ''NEGATIVE''))\<rparr>\<rparr> \<and>
   error_banner (loadDashboard upstream_error_server sample_parse selected_state) = None \<and>
   error_banner (loadVersions upstream_error_server sample_parse ''10001'' selected_state) =
     Some (JStr ''Version not found'')"
proof -
  have h: "map snd (dashboard_calls upstream_error_server sample_parse selected_state) =
     [Inr (JObj [(''error'', JStr ''Version not found'')]),
      Inr (projr (sample_parse (JStr ''PROGRESS''))),
      Inr (projr (sample_parse (JStr ''REGRESSION''))),
      Inr (projr (sample_parse (JStr ''NEGATIVE'')))]"
    by (simp add: dashboard_calls_def callTool_def upstream_error_server_def sample_server_def
        envelope_def get_prop_def sample_parse_def)
  have v: "loadVersions upstream_error_server sample_parse ''10001'' selected_state =
     selected_state\<lparr>error := JStr ''Version not found''\<rparr>"
    by (simp add: loadVersions_def callTool_def upstream_error_server_def
        envelope_def get_prop_def sample_parse_def)
  show ?thesis
    unfolding loadDashboard_values [OF h] v
    by (simp add: error_banner_def selected_state_def initial_state_def)
qed

end
